theory Spec2Isabelle
  imports Complex_Main
begin

section \<open>Numbers and vectors\<close>

text \<open>
  The renderer computes with 32-bit integers and 32-bit floats. The integers here are
  stack pointers, recursion depths and task tags, all far from the ends of the 32-bit
  range, and are modelled by \<open>int\<close>. The floats are modelled by \<open>real\<close>: exact
  arithmetic, no rounding, no infinities and no NaN. Every concrete value used below
  in an evaluation is computed without rounding in 32-bit floats as well, unless said
  otherwise.
\<close>

datatype vec3 = vec3 (vx: real) (vy: real) (vz: real)

text \<open>
  The operators of \<open>taichi\<close> vectors: \<open>+\<close>, \<open>-\<close> and \<open>*\<close> between vectors work
  component by component, a scalar times a vector scales every component
  (\<open>*\<^sub>R\<close>), and a scalar added to a vector is added to every component
  (\<open>splat\<close> makes the vector of three equal components).
\<close>

instantiation vec3 :: "{zero, plus, minus, uminus, times}"
begin

definition zero_vec3 :: vec3 where
  "zero_vec3 = vec3 0 0 0"

definition plus_vec3 :: "vec3 \<Rightarrow> vec3 \<Rightarrow> vec3" where
  "plus_vec3 a b = vec3 (vx a + vx b) (vy a + vy b) (vz a + vz b)"

definition minus_vec3 :: "vec3 \<Rightarrow> vec3 \<Rightarrow> vec3" where
  "minus_vec3 a b = vec3 (vx a - vx b) (vy a - vy b) (vz a - vz b)"

definition uminus_vec3 :: "vec3 \<Rightarrow> vec3" where
  "uminus_vec3 a = vec3 (- vx a) (- vy a) (- vz a)"

definition times_vec3 :: "vec3 \<Rightarrow> vec3 \<Rightarrow> vec3" where
  "times_vec3 a b = vec3 (vx a * vx b) (vy a * vy b) (vz a * vz b)"

instance ..

end

instantiation vec3 :: scaleR
begin

definition scaleR_vec3 :: "real \<Rightarrow> vec3 \<Rightarrow> vec3" where
  "scaleR_vec3 c a = vec3 (c * vx a) (c * vy a) (c * vz a)"

instance ..

end

lemmas vec3_ops =
  zero_vec3_def plus_vec3_def minus_vec3_def uminus_vec3_def times_vec3_def scaleR_vec3_def

definition splat :: "real \<Rightarrow> vec3" where
  "splat c = vec3 c c c"

definition dot :: "vec3 \<Rightarrow> vec3 \<Rightarrow> real" where
  "dot a b = vx a * vx b + vy a * vy b + vz a * vz b"

definition norm3 :: "vec3 \<Rightarrow> real" where
  "norm3 a = sqrt (dot a a)"

text \<open>
  \<open>v.normalized()\<close> divides every component by the norm. For the zero vector the
  floats give NaN; \<open>real\<close> division by zero gives 0, so nothing below relies on
  the normalisation of a zero vector.
\<close>

definition normalized :: "vec3 \<Rightarrow> vec3" where
  "normalized a = vec3 (vx a / norm3 a) (vy a / norm3 a) (vz a / norm3 a)"

definition distance :: "vec3 \<Rightarrow> vec3 \<Rightarrow> real" where
  "distance a b = norm3 (a - b)"

type_synonym Color = vec3

section \<open>Rays, materials, hit records and lights\<close>

text \<open>
  Modelled from the spec: \<open>Ray\<close>, \<open>HitRecord\<close>, the material and its kinds are
  declared in \<open>models.py\<close>, which is not among the sources. The fields are the ones
  the renderer reads (\<open>ray.rd\<close>, \<open>rec.is_hit\<close>, \<open>rec.t\<close>, \<open>rec.pos\<close>,
  \<open>rec.N\<close>, \<open>rec.front_face\<close>, \<open>rec.mat\<close> with \<open>m_type\<close>, \<open>ka\<close>,
  \<open>kd\<close>, \<open>ks\<close>, \<open>diffuse_color\<close>, \<open>spec_exp\<close>, \<open>ior\<close>); a ray is built
  as \<open>Ray(origin, direction)\<close>. The renderer compares \<open>m_type\<close> with
  \<open>REFLECTION_AND_REFRACTION\<close> and \<open>REFLECTION\<close> and shades every other kind by
  the Phong model; \<open>DIFFUSE\<close> stands for every other kind.
\<close>

record Ray =
  ro :: vec3
  rd :: vec3

datatype MaterialType = DIFFUSE | REFLECTION_AND_REFRACTION | REFLECTION

record Material =
  m_type :: MaterialType
  ka :: real
  kd :: real
  ks :: real
  diffuse_color :: vec3
  spec_exp :: real
  ior :: real

record HitRecord =
  is_hit :: bool
  t :: real
  pos :: vec3
  N :: vec3
  front_face :: bool
  mat :: Material

text \<open>\<open>HitRecord()\<close>: every field zero, \<open>is_hit\<close> false.\<close>

definition HitRecord_new :: HitRecord where
  "HitRecord_new =
     \<lparr>is_hit = False, t = 0, pos = vec3 0 0 0, N = vec3 0 0 0, front_face = False,
      mat = \<lparr>m_type = DIFFUSE, ka = 0, kd = 0, ks = 0, diffuse_color = vec3 0 0 0,
             spec_exp = 0, ior = 0\<rparr>\<rparr>"

record AmbientLight =
  Ia :: vec3

record PointLight =
  pos :: vec3
  I :: vec3

record LightList =
  ambient_light :: AmbientLight
  point_lights :: "PointLight list"

text \<open>
  An object of the scene is its \<open>hit(ray, tmax)\<close> method (\<open>models.py\<close>, not among
  the sources), taken as a parameter. The bound \<open>tmax\<close> is a float that may be
  \<open>tm.inf\<close>: \<open>None\<close> is infinity.
\<close>

type_synonym hittable = "Ray \<Rightarrow> real option \<Rightarrow> HitRecord"

record HittableList =
  objs :: "hittable list"

definition less_bound :: "real \<Rightarrow> real option \<Rightarrow> bool" where
  "less_bound x b = (case b of None \<Rightarrow> True | Some c \<Rightarrow> x < c)"

text \<open>The unrolled loop of \<open>HittableList.hit\<close> over the objects, in order.\<close>

fun hit_objs :: "hittable list \<Rightarrow> Ray \<Rightarrow> real option \<Rightarrow> HitRecord \<Rightarrow> HitRecord" where
  "hit_objs [] r closest_so_far hrec = hrec"
| "hit_objs (obj # rest) r closest_so_far hrec =
     (let temp_rec = obj r closest_so_far in
      if is_hit temp_rec \<and> less_bound (t temp_rec) closest_so_far
      then hit_objs rest r (Some (t temp_rec)) temp_rec
      else hit_objs rest r closest_so_far hrec)"

definition hit :: "HittableList \<Rightarrow> Ray \<Rightarrow> real option \<Rightarrow> HitRecord" where
  "hit w r tmin = hit_objs (objs w) r tmin HitRecord_new"

section \<open>Task frames\<close>

definition TASK_PROCESS :: int where
  "TASK_PROCESS = 0"

definition TASK_MERGE :: int where
  "TASK_MERGE = 1"

record StatusFrame =
  task_type :: int
  depth :: int
  ray :: Ray
  kr :: real

section \<open>Random numbers\<close>

text \<open>
  \<open>ti.random()\<close> is the only source of randomness. The generator is modelled by
  the sequence of the numbers it will return: a draw takes the first and leaves the
  rest.
\<close>

type_synonym rng = "nat \<Rightarrow> real"

definition random :: "rng \<Rightarrow> real \<times> rng" where
  "random g = (g 0, (\<lambda>n. g (Suc n)))"

definition rand3 :: "rng \<Rightarrow> vec3 \<times> rng" where
  "rand3 g =
     (case random g of (a, g1) \<Rightarrow>
      case random g1 of (b, g2) \<Rightarrow>
      case random g2 of (c, g3) \<Rightarrow> (vec3 a b c, g3))"

text \<open>
  The rejection loop of \<open>random_in_unit_sphere\<close> has no bound on its number of
  rounds: not returning is \<open>None\<close>.
\<close>

partial_function (option) random_in_unit_sphere_loop :: "vec3 \<Rightarrow> rng \<Rightarrow> (vec3 \<times> rng) option" where
  "random_in_unit_sphere_loop p g =
     (if norm3 p \<ge> 1
      then (case rand3 g of (r, g') \<Rightarrow>
              random_in_unit_sphere_loop (2 *\<^sub>R r - vec3 1 1 1) g')
      else Some (p, g))"

definition random_in_unit_sphere :: "rng \<Rightarrow> (vec3 \<times> rng) option" where
  "random_in_unit_sphere g =
     (case rand3 g of (r, g') \<Rightarrow> random_in_unit_sphere_loop (2 *\<^sub>R r - vec3 1 1 1) g')"

definition random_unit_vector :: "rng \<Rightarrow> (vec3 \<times> rng) option" where
  "random_unit_vector g =
     (case random_in_unit_sphere g of
        None \<Rightarrow> None
      | Some (p, g') \<Rightarrow> Some (normalized p, g'))"

section \<open>The per-pixel stacks\<close>

text \<open>
  \<open>StatusStack\<close> and \<open>ResultStack\<close> declare the same fields and the same six
  methods with the same bodies; only the type of the stored values differs
  (\<open>StatusFrame\<close> and \<open>Color\<close>). One record with the element type as a parameter
  models both. \<open>stack\<close> is the field of shape \<open>(width, height, max_depth)\<close>,
  a store from index triples to values, and \<open>ptr\<close> the field of shape
  \<open>(width, height)\<close>. The pixel indices \<open>i\<close>, \<open>j\<close> always come from the
  loop over the frame buffer and are in range.
\<close>

record 'a Stack =
  max_depth :: int
  stack :: "int \<times> int \<times> int \<Rightarrow> 'a"
  ptr :: "int \<times> int \<Rightarrow> int"

text \<open>\<open>__init__\<close>: fields start zeroed (\<open>z\<close> is the zero value), then \<open>ptr.fill(-1)\<close>.\<close>

definition stack_init :: "int \<Rightarrow> 'a \<Rightarrow> 'a Stack" where
  "stack_init d z = \<lparr>max_depth = d, stack = (\<lambda>_. z), ptr = (\<lambda>_. - 1)\<rparr>"

definition stack_clear :: "'a Stack \<Rightarrow> int \<Rightarrow> int \<Rightarrow> 'a Stack" where
  "stack_clear s i j = s\<lparr>ptr := (ptr s)((i, j) := - 1)\<rparr>"

definition stack_empty :: "'a Stack \<Rightarrow> int \<Rightarrow> int \<Rightarrow> bool" where
  "stack_empty s i j = (ptr s (i, j) \<le> - 1)"

definition stack_full :: "'a Stack \<Rightarrow> int \<Rightarrow> int \<Rightarrow> bool" where
  "stack_full s i j = (ptr s (i, j) \<ge> Stack.max_depth s)"

text \<open>
  \<open>top\<close> reads \<open>stack[i, j, ptr[i, j]]\<close>. With the pointer outside
  \<open>0 .. max_depth - 1\<close> that is a read outside the field, which the code never
  checks and \<open>taichi\<close> leaves undefined: the model returns a fault there.
\<close>

datatype fault = OutOfRange

definition stack_top :: "'a Stack \<Rightarrow> int \<Rightarrow> int \<Rightarrow> fault + 'a" where
  "stack_top s i j =
     (if 0 \<le> ptr s (i, j) \<and> ptr s (i, j) < Stack.max_depth s
      then Inr (stack s (i, j, ptr s (i, j))) else Inl OutOfRange)"

definition stack_push :: "'a Stack \<Rightarrow> int \<Rightarrow> int \<Rightarrow> 'a \<Rightarrow> bool \<times> 'a Stack" where
  "stack_push s i j v =
     (if ptr s (i, j) + 1 < Stack.max_depth s
      then (True, s\<lparr>ptr := (ptr s)((i, j) := ptr s (i, j) + 1),
                    stack := (stack s)((i, j, ptr s (i, j) + 1) := v)\<rparr>)
      else (False, s))"

definition stack_pop :: "'a Stack \<Rightarrow> int \<Rightarrow> int \<Rightarrow> bool \<times> 'a Stack" where
  "stack_pop s i j =
     (if ptr s (i, j) - 1 \<ge> - 1
      then (True, s\<lparr>ptr := (ptr s)((i, j) := ptr s (i, j) - 1)\<rparr>)
      else (False, s))"

text \<open>
  The states a stack can be in: it starts empty at every pixel (whatever the store
  holds), and every further state comes from \<open>clear\<close>, \<open>push\<close> or \<open>pop\<close> at some
  pixel.
\<close>

inductive reachable :: "'a Stack \<Rightarrow> bool" where
  start: "reachable \<lparr>max_depth = d, stack = m, ptr = (\<lambda>_. - 1)\<rparr>"
| clear: "reachable s \<Longrightarrow> reachable (stack_clear s i j)"
| push: "reachable s \<Longrightarrow> reachable (snd (stack_push s i j v))"
| pop: "reachable s \<Longrightarrow> reachable (snd (stack_pop s i j))"

text \<open>Pushing a list of values one after the other, stopping at the first failure.\<close>

fun push_all :: "'a Stack \<Rightarrow> int \<Rightarrow> int \<Rightarrow> 'a list \<Rightarrow> bool \<times> 'a Stack" where
  "push_all s i j [] = (True, s)"
| "push_all s i j (v # vs) =
     (case stack_push s i j v of
        (True, s') \<Rightarrow> push_all s' i j vs
      | (False, s') \<Rightarrow> (False, s'))"

type_synonym StatusStack = "StatusFrame Stack"

type_synonym ResultStack = "Color Stack"

section \<open>The renderer\<close>

text \<open>
  The fields of \<open>Renderer\<close> that \<open>ray_color\<close> and \<open>bling_phong\<close> read or
  write. \<open>W\<close>, \<open>H\<close>, \<open>frame_buf\<close>, \<open>vfov\<close> and \<open>eye_pos\<close> are used by the
  kernel \<open>render\<close> only, which builds the primary ray of every pixel and stores what
  \<open>ray_color\<close> returns.
\<close>

record Renderer =
  background_color :: vec3
  max_depth :: int
  max_stack_size :: int
  reflect_fuzz :: real
  lights :: LightList
  world :: HittableList
  status_stack :: StatusStack
  result_stack :: ResultStack

text \<open>
  \<open>__init__\<close>: an empty light list (its ambient intensity taken as zero until one is
  added), no objects, and two stacks of capacity \<open>max_stack_size\<close> whose stores start
  zeroed.
\<close>

definition Renderer_init :: "vec3 \<Rightarrow> int \<Rightarrow> int \<Rightarrow> real \<Rightarrow> Renderer" where
  "Renderer_init bg md mss fuzz =
     \<lparr>background_color = bg, max_depth = md, max_stack_size = mss, reflect_fuzz = fuzz,
      lights = \<lparr>ambient_light = \<lparr>Ia = vec3 0 0 0\<rparr>, point_lights = []\<rparr>,
      world = \<lparr>objs = []\<rparr>,
      status_stack = stack_init mss
        \<lparr>task_type = 0, depth = 0, ray = \<lparr>ro = vec3 0 0 0, rd = vec3 0 0 0\<rparr>, kr = 0\<rparr>,
      result_stack = stack_init mss (vec3 0 0 0)\<rparr>"

definition reflect :: "vec3 \<Rightarrow> vec3 \<Rightarrow> vec3" where
  "reflect v n = v - (2 * dot v n) *\<^sub>R n"

definition refract :: "vec3 \<Rightarrow> vec3 \<Rightarrow> real \<Rightarrow> vec3" where
  "refract v n etai_over_etat =
     (let cos_theta = min (dot n (- v)) 1;
          r_out_perp = etai_over_etat *\<^sub>R (v + cos_theta *\<^sub>R n);
          r_out_parallel = (- sqrt \<bar>1 - dot r_out_perp r_out_perp\<bar>) *\<^sub>R n
      in r_out_perp + r_out_parallel)"

text \<open>Schlick's approximation; the exponent is the integer literal 5.\<close>

definition reflectance :: "real \<Rightarrow> real \<Rightarrow> real" where
  "reflectance cosine ref_idx =
     (let r0 = (1 - ref_idx) / (1 + ref_idx);
          r0 = r0 * r0
      in r0 + (1 - r0) * (1 - cosine) ^ 5)"

text \<open>
  \<open>tm.pow\<close> with a float exponent. Its base is never negative where the renderer
  calls it (it is a \<open>max(0, ...)\<close>), and \<open>pow(0, 0)\<close> is 1.
\<close>

definition pow :: "real \<Rightarrow> real \<Rightarrow> real" where
  "pow b e = (if b = 0 \<and> e = 0 then 1 else b powr e)"

subsection \<open>The shading evaluator \<open>bling_phong\<close>\<close>

definition eps :: real where
  "eps = 1 / 100000"

definition shadow_orig :: "Ray \<Rightarrow> HitRecord \<Rightarrow> vec3" where
  "shadow_orig r hrec =
     (if dot (rd r) (N hrec) < 0 then HitRecord.pos hrec + eps *\<^sub>R N hrec
      else HitRecord.pos hrec - eps *\<^sub>R N hrec)"

text \<open>
  One round of the loop over the point lights: from the three colours
  \<open>(ambient_color, diffuse_color, specular_color)\<close> before the round to the three
  after it.
\<close>

definition in_shadow :: "Renderer \<Rightarrow> Ray \<Rightarrow> HitRecord \<Rightarrow> PointLight \<Rightarrow> bool" where
  "in_shadow R r hrec light =
     (let dist = distance (PointLight.pos light) (HitRecord.pos hrec);
          light_dir = normalized (PointLight.pos light - HitRecord.pos hrec);
          shadow_rec = hit (world R) \<lparr>ro = shadow_orig r hrec, rd = light_dir\<rparr> None
      in is_hit shadow_rec \<and> t shadow_rec < dist)"

definition bling_phong_light ::
  "Renderer \<Rightarrow> Ray \<Rightarrow> HitRecord \<Rightarrow> PointLight \<Rightarrow> vec3 \<times> vec3 \<times> vec3 \<Rightarrow> vec3 \<times> vec3 \<times> vec3" where
  "bling_phong_light R r hrec light acc =
     (case acc of (ambient_color, diffuse_acc, specular_color) \<Rightarrow>
      let light_dir = normalized (PointLight.pos light - HitRecord.pos hrec);
          ambient_color = ka (mat hrec) *\<^sub>R Ia (ambient_light (lights R));
          diffuse_acc = diffuse_acc +
            (if in_shadow R r hrec light then vec3 0 0 0
             else splat (max 0 (dot light_dir (N hrec))));
          reflect_dir = normalized (reflect (- light_dir) (N hrec));
          specular_color = specular_color +
            pow (max 0 (- dot reflect_dir light_dir)) (spec_exp (mat hrec)) *\<^sub>R I light
      in (ambient_color, diffuse_acc, specular_color))"

fun bling_phong_lights ::
  "Renderer \<Rightarrow> Ray \<Rightarrow> HitRecord \<Rightarrow> PointLight list \<Rightarrow> vec3 \<times> vec3 \<times> vec3 \<Rightarrow> vec3 \<times> vec3 \<times> vec3" where
  "bling_phong_lights R r hrec [] acc = acc"
| "bling_phong_lights R r hrec (light # rest) acc =
     bling_phong_lights R r hrec rest (bling_phong_light R r hrec light acc)"

definition bling_phong :: "Renderer \<Rightarrow> Ray \<Rightarrow> HitRecord \<Rightarrow> vec3" where
  "bling_phong R r hrec =
     (case bling_phong_lights R r hrec (point_lights (lights R))
             (vec3 0 0 0, vec3 0 0 0, vec3 0 0 0) of
        (ambient_color, diffuse_acc, specular_color) \<Rightarrow>
          ambient_color + (kd (mat hrec) *\<^sub>R diffuse_color (mat hrec)) * diffuse_acc
            + ks (mat hrec) *\<^sub>R specular_color)"

subsection \<open>The task dispatch loop of \<open>ray_color\<close>\<close>

text \<open>
  One round of the \<open>while\<close> loop ends in one of three ways: it goes on to the next
  round (the end of the body or \<open>continue\<close>), it leaves the loop (\<open>break\<close>), or it
  has read a stack outside its field. The stacks are fields of the renderer; the
  random generator is passed along.
\<close>

datatype outcome = Continue Renderer rng | Break Renderer rng | Fault fault

text \<open>
  A hit on a \<open>REFLECTION\<close> or \<open>REFLECTION_AND_REFRACTION\<close> material: the body of
  the first branch under \<open>if rec.is_hit\<close>. The three frames it builds come first, as
  functions of the frame being processed, the hit record and the random unit vector
  \<open>u\<close> drawn for the reflection; \<open>dir\<close> is the local \<open>rd\<close> of the code, the
  normalised direction of the frame's ray. Fields left out in the call of
  \<open>StatusFrame\<close> are zero.
\<close>

definition ref_idx_of :: "HitRecord \<Rightarrow> real" where
  "ref_idx_of hrec =
     (let ref_idx = ior (mat hrec)
      in if front_face hrec then 1 / ref_idx else ref_idx)"

definition merge_frame_of :: "StatusFrame \<Rightarrow> HitRecord \<Rightarrow> StatusFrame" where
  "merge_frame_of frame hrec =
     (let dir = normalized (rd (ray frame));
          cos_theta = max (min (- dot dir (N hrec)) 1) (- 1);
          k = reflectance cos_theta (ref_idx_of hrec)
      in \<lparr>task_type = TASK_MERGE, depth = depth frame + 1,
          ray = \<lparr>ro = vec3 0 0 0, rd = vec3 0 0 0\<rparr>, kr = k\<rparr>)"

definition reflect_frame_of :: "Renderer \<Rightarrow> StatusFrame \<Rightarrow> HitRecord \<Rightarrow> vec3 \<Rightarrow> StatusFrame" where
  "reflect_frame_of R frame hrec u =
     (let dir = normalized (rd (ray frame));
          reflect_dir = normalized (reflect dir (N hrec));
          reflect_dir = reflect_dir + reflect_fuzz R *\<^sub>R u;
          reflect_orig = HitRecord.pos hrec;
          reflect_orig = (if dot reflect_dir (N hrec) > 0
                          then reflect_orig + eps *\<^sub>R N hrec
                          else reflect_orig + eps *\<^sub>R N hrec)
      in \<lparr>task_type = TASK_PROCESS, depth = depth frame + 1,
          ray = \<lparr>ro = reflect_orig, rd = reflect_dir\<rparr>, kr = 0\<rparr>)"

definition refract_frame_of :: "StatusFrame \<Rightarrow> HitRecord \<Rightarrow> StatusFrame" where
  "refract_frame_of frame hrec =
     (let dir = normalized (rd (ray frame));
          refract_dir = normalized (refract dir (N hrec) (ref_idx_of hrec));
          refract_orig = HitRecord.pos hrec;
          refract_orig = (if dot refract_dir (N hrec) > 0
                          then refract_orig + eps *\<^sub>R N hrec
                          else refract_orig - eps *\<^sub>R N hrec)
      in \<lparr>task_type = TASK_PROCESS, depth = depth frame + 1,
          ray = \<lparr>ro = refract_orig, rd = refract_dir\<rparr>, kr = 0\<rparr>)"

text \<open>
  The branch itself, in the order of the code: the random unit vector is drawn, the
  \<open>MERGE\<close> frame is pushed, then the reflection frame, then either the refraction
  frame on the task stack or the colour \<open>0.99 * background_color\<close> on the result
  stack. \<open>R\<close> is the renderer after the frame has been popped.
\<close>

definition ray_color_reflective ::
  "Renderer \<Rightarrow> int \<Rightarrow> int \<Rightarrow> StatusFrame \<Rightarrow> HitRecord \<Rightarrow> rng \<Rightarrow> outcome option" where
  "ray_color_reflective R i j frame hrec g =
     (case random_unit_vector g of
        None \<Rightarrow> None
      | Some (u, g') \<Rightarrow>
          let merge_frame = merge_frame_of frame hrec;
              R = R\<lparr>status_stack := snd (stack_push (status_stack R) i j merge_frame)\<rparr>;
              reflect_frame = reflect_frame_of R frame hrec u;
              R = R\<lparr>status_stack := snd (stack_push (status_stack R) i j reflect_frame)\<rparr>
          in if m_type (mat hrec) = REFLECTION_AND_REFRACTION
             then
               let refract_frame = refract_frame_of frame hrec
               in Some (Continue
                    (R\<lparr>status_stack := snd (stack_push (status_stack R) i j refract_frame)\<rparr>) g')
             else
               Some (Continue
                 (R\<lparr>result_stack :=
                      snd (stack_push (result_stack R) i j ((99 / 100) *\<^sub>R background_color R))\<rparr>) g'))"

text \<open>The branch \<open>frame.task_type == TASK_PROCESS\<close>.\<close>

definition ray_color_process ::
  "Renderer \<Rightarrow> int \<Rightarrow> int \<Rightarrow> StatusFrame \<Rightarrow> rng \<Rightarrow> outcome option" where
  "ray_color_process R i j frame g =
     (if depth frame \<ge> max_depth R
      then Some (Continue
             (R\<lparr>result_stack := snd (stack_push (result_stack R) i j (vec3 0 0 0))\<rparr>) g)
      else
        let hrec = hit (world R) (ray frame) None in
        if is_hit hrec
        then
          if m_type (mat hrec) = REFLECTION_AND_REFRACTION \<or> m_type (mat hrec) = REFLECTION
          then ray_color_reflective R i j frame hrec g
          else
            let color = bling_phong R (ray frame) hrec
            in Some (Continue
                 (R\<lparr>result_stack := snd (stack_push (result_stack R) i j color)\<rparr>) g)
        else Some (Break R g))"

text \<open>The branch \<open>frame.task_type == TASK_MERGE\<close>.\<close>

definition ray_color_merge ::
  "Renderer \<Rightarrow> int \<Rightarrow> int \<Rightarrow> StatusFrame \<Rightarrow> rng \<Rightarrow> outcome option" where
  "ray_color_merge R i j frame g =
     (let k = kr frame in
      case stack_top (result_stack R) i j of
        Inl e \<Rightarrow> Some (Fault e)
      | Inr refract_color \<Rightarrow>
          let R = R\<lparr>result_stack := snd (stack_pop (result_stack R) i j)\<rparr> in
          (case stack_top (result_stack R) i j of
             Inl e \<Rightarrow> Some (Fault e)
           | Inr reflect_color \<Rightarrow>
               let R = R\<lparr>result_stack := snd (stack_pop (result_stack R) i j)\<rparr>;
                   combined_color = k *\<^sub>R reflect_color + (1 - k) *\<^sub>R refract_color
               in Some (Continue
                    (R\<lparr>result_stack := snd (stack_push (result_stack R) i j combined_color)\<rparr>) g)))"

text \<open>The body of the \<open>while\<close> loop: take the top frame, pop it, dispatch on its tag.\<close>

definition ray_color_body :: "Renderer \<Rightarrow> int \<Rightarrow> int \<Rightarrow> rng \<Rightarrow> outcome option" where
  "ray_color_body R i j g =
     (case stack_top (status_stack R) i j of
        Inl e \<Rightarrow> Some (Fault e)
      | Inr frame \<Rightarrow>
          let R = R\<lparr>status_stack := snd (stack_pop (status_stack R) i j)\<rparr> in
          if task_type frame = TASK_PROCESS then ray_color_process R i j frame g
          else if task_type frame = TASK_MERGE then ray_color_merge R i j frame g
          else Some (Continue R g))"

text \<open>
  The \<open>while\<close> loop. Nothing in the code bounds its number of rounds in an obvious
  way, and the reflective branch may wait for the random generator for ever: not
  returning is \<open>None\<close>.
\<close>

partial_function (option) ray_color_loop ::
  "Renderer \<Rightarrow> int \<Rightarrow> int \<Rightarrow> rng \<Rightarrow> (fault + Renderer \<times> rng) option" where
  "ray_color_loop R i j g =
     (if \<not> stack_empty (status_stack R) i j
      then (case ray_color_body R i j g of
              None \<Rightarrow> None
            | Some (Continue R' g') \<Rightarrow> ray_color_loop R' i j g'
            | Some (Break R' g') \<Rightarrow> Some (Inr (R', g'))
            | Some (Fault e) \<Rightarrow> Some (Inl e))
      else Some (Inr (R, g)))"

text \<open>What \<open>ray_color\<close> does before the loop, and after it.\<close>

definition ray_color_start :: "Renderer \<Rightarrow> int \<Rightarrow> int \<Rightarrow> Ray \<Rightarrow> Renderer" where
  "ray_color_start R i j r =
     (let R = R\<lparr>status_stack := stack_clear (status_stack R) i j\<rparr>;
          R = R\<lparr>result_stack := stack_clear (result_stack R) i j\<rparr>;
          frame = \<lparr>task_type = TASK_PROCESS, depth = 0, ray = r, kr = 1\<rparr>
      in R\<lparr>status_stack := snd (stack_push (status_stack R) i j frame)\<rparr>)"

definition ray_color_finish :: "Renderer \<Rightarrow> int \<Rightarrow> int \<Rightarrow> fault + vec3 \<times> Renderer" where
  "ray_color_finish R i j =
     (if \<not> stack_empty (result_stack R) i j
      then (case stack_top (result_stack R) i j of
              Inl e \<Rightarrow> Inl e
            | Inr pixel_color \<Rightarrow>
                Inr (pixel_color, R\<lparr>result_stack := snd (stack_pop (result_stack R) i j)\<rparr>))
      else Inr (background_color R, R))"

text \<open>
  \<open>ray_color(i, j, ray)\<close>: the colour of the pixel, with the renderer and the
  generator as the call leaves them.
\<close>

definition ray_color ::
  "Renderer \<Rightarrow> int \<Rightarrow> int \<Rightarrow> Ray \<Rightarrow> rng \<Rightarrow> (fault + vec3 \<times> Renderer \<times> rng) option" where
  "ray_color R i j r g =
     (case ray_color_loop (ray_color_start R i j r) i j g of
        None \<Rightarrow> None
      | Some (Inl e) \<Rightarrow> Some (Inl e)
      | Some (Inr (R', g')) \<Rightarrow>
          (case ray_color_finish R' i j of
             Inl e \<Rightarrow> Some (Inl e)
           | Inr (pixel_color, R'') \<Rightarrow> Some (Inr (pixel_color, R'', g'))))"

subsection \<open>Rounds of the loop\<close>

text \<open>
  The first \<open>n\<close> rounds of the \<open>while\<close> loop. The outcome is \<open>Continue\<close> when all
  \<open>n\<close> rounds have run and each has gone on to the next; it is the outcome of the round
  that stopped the loop otherwise, and \<open>Break\<close> with the state reached when the task
  stack was found empty.
\<close>

fun ray_color_rounds :: "nat \<Rightarrow> Renderer \<Rightarrow> int \<Rightarrow> int \<Rightarrow> rng \<Rightarrow> outcome option" where
  "ray_color_rounds 0 R i j g = Some (Continue R g)"
| "ray_color_rounds (Suc n) R i j g =
     (if \<not> stack_empty (status_stack R) i j
      then (case ray_color_body R i j g of
              Some (Continue R' g') \<Rightarrow> ray_color_rounds n R' i j g'
            | other \<Rightarrow> other)
      else Some (Break R g))"

text \<open>
  The frame on top of the task stack of \<open>R\<close> has been worked off with the colour
  \<open>c\<close>: some number of rounds lead from \<open>R\<close> and \<open>g\<close> to \<open>R'\<close> and \<open>g'\<close>,
  where the task stack is one frame shorter and the same below, and the result stack is
  one colour longer, \<open>c\<close> on top, and the same below.
\<close>

definition completes :: "int \<Rightarrow> int \<Rightarrow> Renderer \<Rightarrow> rng \<Rightarrow> vec3 \<Rightarrow> Renderer \<Rightarrow> rng \<Rightarrow> bool" where
  "completes i j R g c R' g' \<longleftrightarrow>
     (\<exists>n. ray_color_rounds n R i j g = Some (Continue R' g'))
     \<and> Stack.max_depth (status_stack R') = Stack.max_depth (status_stack R)
     \<and> Stack.max_depth (result_stack R') = Stack.max_depth (result_stack R)
     \<and> ptr (status_stack R') (i, j) = ptr (status_stack R) (i, j) - 1
     \<and> (\<forall>k. k < ptr (status_stack R) (i, j) \<longrightarrow>
            stack (status_stack R') (i, j, k) = stack (status_stack R) (i, j, k))
     \<and> ptr (result_stack R') (i, j) = ptr (result_stack R) (i, j) + 1
     \<and> stack_top (result_stack R') i j = Inr c
     \<and> (\<forall>k. k \<le> ptr (result_stack R) (i, j) \<longrightarrow>
            stack (result_stack R') (i, j, k) = stack (result_stack R) (i, j, k))"

subsection \<open>The recursion the loop stands for\<close>

text \<open>
  The colour of a \<open>PROCESS\<close> frame, by recursion on the rays, as the loop computes it
  when no ray escapes the scene: black at the depth bound, the Phong colour on a
  diffuse surface, and on a reflecting surface the colours of the child frames weighted
  as the \<open>MERGE\<close> round weights them. The refraction frame is traced before the
  reflection frame, each from the generator the work before it has left. A frame whose
  trace meets a miss has no colour in this relation.
\<close>

inductive traces :: "Renderer \<Rightarrow> StatusFrame \<Rightarrow> rng \<Rightarrow> vec3 \<Rightarrow> rng \<Rightarrow> bool" for R where
  at_bound:
    "Renderer.max_depth R \<le> depth f \<Longrightarrow> traces R f g (vec3 0 0 0) g"
| shaded:
    "depth f < Renderer.max_depth R \<Longrightarrow> hrec = hit (world R) (ray f) None \<Longrightarrow> is_hit hrec \<Longrightarrow>
     m_type (mat hrec) = DIFFUSE \<Longrightarrow>
     traces R f g (bling_phong R (ray f) hrec) g"
| mirror:
    "depth f < Renderer.max_depth R \<Longrightarrow> hrec = hit (world R) (ray f) None \<Longrightarrow> is_hit hrec \<Longrightarrow>
     m_type (mat hrec) = REFLECTION \<Longrightarrow>
     random_unit_vector g = Some (u, g1) \<Longrightarrow>
     traces R (reflect_frame_of R f hrec u) g1 c2 g2 \<Longrightarrow>
     traces R f g
       (kr (merge_frame_of f hrec) *\<^sub>R ((99 / 100) *\<^sub>R background_color R)
          + (1 - kr (merge_frame_of f hrec)) *\<^sub>R c2) g2"
| glass:
    "depth f < Renderer.max_depth R \<Longrightarrow> hrec = hit (world R) (ray f) None \<Longrightarrow> is_hit hrec \<Longrightarrow>
     m_type (mat hrec) = REFLECTION_AND_REFRACTION \<Longrightarrow>
     random_unit_vector g = Some (u, g1) \<Longrightarrow>
     traces R (refract_frame_of f hrec) g1 c1 g2 \<Longrightarrow>
     traces R (reflect_frame_of R f hrec u) g2 c2 g3 \<Longrightarrow>
     traces R f g
       (kr (merge_frame_of f hrec) *\<^sub>R c1 + (1 - kr (merge_frame_of f hrec)) *\<^sub>R c2) g3"

text \<open>
  Room for the frame \<open>f\<close> on top of the task stack of \<open>R\<close>: two task slots and one
  result slot for every level of depth still open under the bound of \<open>R0\<close>, and one
  more result slot.
\<close>

definition room :: "int \<Rightarrow> int \<Rightarrow> Renderer \<Rightarrow> Renderer \<Rightarrow> StatusFrame \<Rightarrow> bool" where
  "room i j R0 R f \<longleftrightarrow>
     ptr (status_stack R) (i, j) + 2 * max 0 (Renderer.max_depth R0 - depth f)
       < Stack.max_depth (status_stack R)
     \<and> - 1 \<le> ptr (result_stack R) (i, j)
     \<and> ptr (result_stack R) (i, j) + 1 + max 0 (Renderer.max_depth R0 - depth f)
       < Stack.max_depth (result_stack R)"

text \<open>
  Two renderers with the same configuration and scene: they differ at most in their
  stacks.
\<close>

definition same_config :: "Renderer \<Rightarrow> Renderer \<Rightarrow> bool" where
  "same_config R R' \<longleftrightarrow>
     background_color R' = background_color R \<and> Renderer.max_depth R' = Renderer.max_depth R
     \<and> world R' = world R \<and> lights R' = lights R \<and> reflect_fuzz R' = reflect_fuzz R"

section \<open>Example scenes\<close>

text \<open>
  Concrete renderers, objects, rays and lights, on which the functions above are
  evaluated below. All stacks have capacity 50 and the depth bound is 10, the defaults
  of \<open>Renderer\<close>: \<open>demo_renderer\<close> is \<open>Renderer_init\<close> with a white ambient light,
  the given point lights and the given objects added.
\<close>

definition demo_material :: "MaterialType \<Rightarrow> Material" where
  "demo_material k =
     \<lparr>m_type = k, ka = 1 / 2, kd = 1, ks = 1, diffuse_color = vec3 1 0 0,
      spec_exp = 25, ior = 3\<rparr>"

definition demo_renderer :: "hittable list \<Rightarrow> PointLight list \<Rightarrow> Renderer" where
  "demo_renderer os ls =
     \<lparr>background_color = vec3 0 0 1, max_depth = 10, max_stack_size = 50, reflect_fuzz = 0,
      lights = \<lparr>ambient_light = \<lparr>Ia = vec3 1 1 1\<rparr>, point_lights = ls\<rparr>,
      world = \<lparr>objs = os\<rparr>,
      status_stack = stack_init 50
        \<lparr>task_type = 0, depth = 0, ray = \<lparr>ro = vec3 0 0 0, rd = vec3 0 0 0\<rparr>, kr = 0\<rparr>,
      result_stack = stack_init 50 (vec3 0 0 0)\<rparr>"

text \<open>An object that every ray hits at distance 1/2.\<close>

definition occluder :: hittable where
  "occluder r tmax =
     \<lparr>is_hit = True, t = 1 / 2, pos = ro r + (1 / 2) *\<^sub>R rd r, N = - rd r, front_face = True,
      mat = demo_material DIFFUSE\<rparr>"

text \<open>
  A point of a horizontal diffuse surface, hit from above, and a light at distance 1
  from it, level with the surface.
\<close>

definition floor_rec :: HitRecord where
  "floor_rec =
     \<lparr>is_hit = True, t = 1, pos = vec3 0 0 0, N = vec3 0 0 1, front_face = True,
      mat = demo_material DIFFUSE\<rparr>"

definition down_ray :: Ray where
  "down_ray = \<lparr>ro = vec3 0 0 1, rd = vec3 0 0 (- 1)\<rparr>"

definition side_light :: PointLight where
  "side_light = \<lparr>pos = vec3 1 0 0, I = vec3 1 1 1\<rparr>"

text \<open>A generator that returns 3/4 for ever.\<close>

definition steady_rng :: rng where
  "steady_rng = (\<lambda>n. 3 / 4)"

text \<open>A renderer whose task stack holds one \<open>PROCESS\<close> frame of depth 10 at pixel (0, 0).\<close>

definition frame_at_bound :: StatusFrame where
  "frame_at_bound = \<lparr>task_type = TASK_PROCESS, depth = 10, ray = down_ray, kr = 0\<rparr>"

definition renderer_at_bound :: Renderer where
  "renderer_at_bound =
     (demo_renderer [occluder] [])
       \<lparr>status_stack :=
          snd (stack_push (status_stack (demo_renderer [occluder] [])) 0 0 frame_at_bound)\<rparr>"

text \<open>
  A floor at height 0 and a ceiling at height 2, each of a chosen material. The scene
  answers the two rays the examples cast at them: the ray that starts at height 1 hits
  the floor from above, the ray that starts just above the floor (where the floor's
  reflection ray starts) hits the ceiling from below, and every other ray misses.
\<close>

definition floor_hit :: "MaterialType \<Rightarrow> HitRecord" where
  "floor_hit k = floor_rec\<lparr>mat := demo_material k\<rparr>"

definition ceiling_hit :: "MaterialType \<Rightarrow> HitRecord" where
  "ceiling_hit k =
     \<lparr>is_hit = True, t = 199999 / 100000, pos = vec3 0 0 2, N = vec3 0 0 (- 1),
      front_face = True, mat = demo_material k\<rparr>"

definition two_surfaces :: "MaterialType \<Rightarrow> MaterialType \<Rightarrow> hittable" where
  "two_surfaces k1 k2 r tmax =
     (if ro r = vec3 0 0 1 then floor_hit k1
      else if ro r = vec3 0 0 (1 / 100000) then ceiling_hit k2
      else HitRecord_new)"


text \<open>A light at height 1, straight under the point of the ceiling.\<close>

definition lamp :: PointLight where
  "lamp = \<lparr>pos = vec3 0 0 1, I = vec3 1 1 1\<rparr>"

text \<open>The frame \<open>ray_color\<close> starts with.\<close>

definition primary_frame :: "Ray \<Rightarrow> StatusFrame" where
  "primary_frame r = \<lparr>task_type = TASK_PROCESS, depth = 0, ray = r, kr = 1\<rparr>"

text \<open>
  A renderer whose result stack holds, at pixel (0, 0), the colour \<open>(0, 0, 0)\<close> and
  above it the colour \<open>(1, 0, 0)\<close>, and a \<open>MERGE\<close> frame of coefficient 1.
\<close>

definition merge_demo :: Renderer where
  "merge_demo =
     (demo_renderer [] [])
       \<lparr>result_stack :=
          snd (push_all (result_stack (demo_renderer [] [])) 0 0 [vec3 0 0 0, vec3 1 0 0])\<rparr>"

definition merge_demo_frame :: StatusFrame where
  "merge_demo_frame =
     \<lparr>task_type = TASK_MERGE, depth = 1, ray = \<lparr>ro = vec3 0 0 0, rd = vec3 0 0 0\<rparr>, kr = 1\<rparr>"

text \<open>The number of colours on the result stack when the loop has returned.\<close>

definition results_held :: "(fault + Renderer \<times> rng) option \<Rightarrow> int \<Rightarrow> int \<Rightarrow> int option" where
  "results_held res i j =
     (case res of Some (Inr (R, g)) \<Rightarrow> Some (ptr (result_stack R) (i, j) + 1) | _ \<Rightarrow> None)"

text \<open>The colour \<open>ray_color\<close> returns, when it returns one.\<close>

definition pixel_of :: "(fault + vec3 \<times> Renderer \<times> rng) option \<Rightarrow> vec3 option" where
  "pixel_of res = (case res of Some (Inr (c, R, g)) \<Rightarrow> Some c | _ \<Rightarrow> None)"

section \<open>Properties of the stacks\<close>

lemma max_depth_clear [simp]: "Stack.max_depth (stack_clear s i j) = Stack.max_depth s"
  by (simp add: stack_clear_def)

lemma max_depth_push [simp]: "Stack.max_depth (snd (stack_push s i j v)) = Stack.max_depth s"
  by (simp add: stack_push_def)

lemma max_depth_pop [simp]: "Stack.max_depth (snd (stack_pop s i j)) = Stack.max_depth s"
  by (simp add: stack_pop_def)

lemma reachable_ptr_lower: "reachable s \<Longrightarrow> - 1 \<le> ptr s p"
  by (induction rule: reachable.induct)
     (auto simp: stack_clear_def stack_push_def stack_pop_def)

lemma reachable_ptr_upper: "reachable s \<Longrightarrow> 0 \<le> Stack.max_depth s \<Longrightarrow> ptr s p \<le> Stack.max_depth s - 1"
  by (induction rule: reachable.induct)
     (auto simp: stack_clear_def stack_push_def stack_pop_def split: if_splits)

lemma push_all_ptr:
  "fst (push_all s i j vs) \<Longrightarrow>
   ptr (snd (push_all s i j vs)) (i, j) = ptr s (i, j) + int (length vs)
   \<and> Stack.max_depth (snd (push_all s i j vs)) = Stack.max_depth s"
proof (induction vs arbitrary: s)
  case Nil
  then show ?case by simp
next
  case (Cons v vs)
  then show ?case
    by (cases "ptr s (i, j) + 1 < Stack.max_depth s") (simp_all add: stack_push_def)
qed

lemma push_all_reachable: "reachable s \<Longrightarrow> reachable (snd (push_all s i j vs))"
proof (induction vs arbitrary: s)
  case Nil
  then show ?case by simp
next
  case (Cons v vs)
  have r: "reachable (snd (stack_push s i j v))"
    using Cons.prems by (rule reachable.push)
  show ?case
  proof (cases "ptr s (i, j) + 1 < Stack.max_depth s")
    case True
    then have "push_all s i j (v # vs) = push_all (snd (stack_push s i j v)) i j vs"
      by (simp add: stack_push_def)
    with Cons.IH [OF r] show ?thesis by simp
  next
    case False
    then have "snd (push_all s i j (v # vs)) = s"
      by (simp add: stack_push_def)
    with Cons.prems show ?thesis by simp
  qed
qed

text \<open>
  Claim C5. In any state reached by pushes, pops and clears: when as many pushes in
  a row as the capacity have all succeeded, the next push fails and returns the state
  as it was (store and pointer); a pop on an empty stack fails and returns the state
  as it was; and right after \<open>clear\<close>, \<open>empty\<close> is true. The record models both
  \<open>StatusStack\<close> and \<open>ResultStack\<close>.
\<close>

theorem stack_contract:
  "reachable s \<Longrightarrow>
   (int (length vs) = Stack.max_depth s \<and> fst (push_all s i j vs) \<longrightarrow>
      stack_push (snd (push_all s i j vs)) i j v = (False, snd (push_all s i j vs)))
   \<and> (stack_empty s i j \<longrightarrow> stack_pop s i j = (False, s))
   \<and> stack_empty (stack_clear s i j) i j"
proof -
  assume r: "reachable s"
  have a: "stack_push (snd (push_all s i j vs)) i j v = (False, snd (push_all s i j vs))"
    if "int (length vs) = Stack.max_depth s" and "fst (push_all s i j vs)"
  proof -
    from push_all_ptr [OF that(2)] that(1) reachable_ptr_lower [OF r, of "(i, j)"]
    show ?thesis by (simp add: stack_push_def)
  qed
  have b: "stack_pop s i j = (False, s)" if "stack_empty s i j"
    using that by (simp add: stack_empty_def stack_pop_def)
  have c: "stack_empty (stack_clear s i j) i j"
    by (simp add: stack_empty_def stack_clear_def)
  from a b c show ?thesis by blast
qed

theorem stack_contract_witness:
  "reachable (stack_init 2 (0::int))
   \<and> stack_push (snd (push_all (stack_init 2 0) 0 0 [5, 7])) 0 0 (9::int)
       = (False, snd (push_all (stack_init 2 0) 0 0 [5, 7]))
   \<and> fst (push_all (stack_init 2 (0::int)) 0 0 [5, 7])
   \<and> stack_pop (stack_init 2 (0::int)) 0 0 = (False, stack_init 2 0)
   \<and> stack_empty (stack_clear (stack_init 2 (0::int)) 0 0) 0 0"
proof -
  have r: "reachable (stack_init 2 (0::int))"
    unfolding stack_init_def by (rule reachable.start)
  have l: "int (length [5, 7 :: int]) = Stack.max_depth (stack_init 2 (0::int))"
    by (simp add: stack_init_def)
  have f: "fst (push_all (stack_init 2 (0::int)) 0 0 [5, 7])"
    by (simp add: stack_init_def stack_push_def)
  have e: "stack_empty (stack_init 2 (0::int)) 0 0"
    by (simp add: stack_init_def stack_empty_def)
  from stack_contract [OF r, of "[5, 7]" 0 0 9] r l f e show ?thesis by simp
qed

text \<open>
  Claim C10. In every reachable state of a stack of capacity \<open>max_depth \<ge> 0\<close> the
  pointer is at most \<open>max_depth - 1\<close>, so \<open>full\<close> is false; a push fails exactly
  when the pointer is \<open>max_depth - 1\<close> (the stack holds \<open>max_depth\<close> values), and
  \<open>full\<close> is false then as well, before and after the failed push.
\<close>

theorem full_false_when_reachable:
  "reachable s \<Longrightarrow> 0 \<le> Stack.max_depth s \<Longrightarrow>
   ptr s (i, j) \<le> Stack.max_depth s - 1
   \<and> \<not> stack_full s i j
   \<and> (\<not> fst (stack_push s i j v) \<longleftrightarrow> ptr s (i, j) = Stack.max_depth s - 1)
   \<and> \<not> stack_full (snd (stack_push s i j v)) i j"
proof -
  assume r: "reachable s" and d: "0 \<le> Stack.max_depth s"
  have u: "ptr s (i, j) \<le> Stack.max_depth s - 1"
    using r d by (rule reachable_ptr_upper)
  have r': "reachable (snd (stack_push s i j v))"
    using r by (rule reachable.push)
  have u': "ptr (snd (stack_push s i j v)) (i, j) \<le> Stack.max_depth s - 1"
    using reachable_ptr_upper [OF r', of "(i, j)"] d by simp
  from u u' show ?thesis
    by (auto simp: stack_full_def stack_push_def)
qed

theorem full_false_when_reachable_witness:
  "reachable (snd (push_all (stack_init 2 (0::int)) 0 0 [5, 7]))
   \<and> ptr (snd (push_all (stack_init 2 (0::int)) 0 0 [5, 7])) (0, 0) = 1
   \<and> \<not> fst (stack_push (snd (push_all (stack_init 2 (0::int)) 0 0 [5, 7])) 0 0 9)
   \<and> \<not> stack_full (snd (push_all (stack_init 2 (0::int)) 0 0 [5, 7])) 0 0"
proof -
  have r0: "reachable (stack_init 2 (0::int))"
    unfolding stack_init_def by (rule reachable.start)
  have r: "reachable (snd (push_all (stack_init 2 (0::int)) 0 0 [5, 7]))"
    using r0 by (rule push_all_reachable)
  have d: "0 \<le> Stack.max_depth (snd (push_all (stack_init 2 (0::int)) 0 0 [5, 7]))"
    by (simp add: stack_init_def stack_push_def)
  have p: "ptr (snd (push_all (stack_init 2 (0::int)) 0 0 [5, 7])) (0, 0) = 1"
    by (simp add: stack_init_def stack_push_def)
  have m: "Stack.max_depth (snd (push_all (stack_init 2 (0::int)) 0 0 [5, 7])) = 2"
    by (simp add: stack_init_def stack_push_def)
  from full_false_when_reachable [OF r d, of 0 0 9] r p m show ?thesis by simp
qed

section \<open>Properties of the Fresnel reflectance\<close>

text \<open>
  Claim C2, as the code has it. For a cosine in \<open>[-1, 1]\<close> and a positive index
  \<open>reflectance\<close> is never negative; it is at most 1 exactly when the cosine is
  not negative; and at cosine 1 it is \<open>r0 = ((1 - ior) / (1 + ior))\<^sup>2\<close>.
\<close>

theorem reflectance_bounds:
  "- 1 \<le> cosine \<Longrightarrow> cosine \<le> 1 \<Longrightarrow> 0 < ref_idx \<Longrightarrow>
   0 \<le> reflectance cosine ref_idx
   \<and> (reflectance cosine ref_idx \<le> 1 \<longleftrightarrow> 0 \<le> cosine)
   \<and> reflectance 1 ref_idx = ((1 - ref_idx) / (1 + ref_idx))\<^sup>2"
proof -
  assume c: "- 1 \<le> cosine" "cosine \<le> 1" and x: "0 < ref_idx"
  define q where "q = (1 - ref_idx) / (1 + ref_idx)"
  define p where "p = (1 - cosine) ^ 5"
  have "\<bar>q\<bar> < 1" using x by (simp add: q_def field_simps)
  then have "q\<^sup>2 < 1" by (simp add: abs_square_less_1)
  then have r1: "q * q < 1" by (simp add: power2_eq_square)
  have r0: "0 \<le> q * q" by simp
  have p0: "0 \<le> p" using c by (simp add: p_def)
  have e: "reflectance cosine ref_idx = q * q + (1 - q * q) * p"
    by (simp add: reflectance_def q_def p_def Let_def)
  have lo: "0 \<le> q * q + (1 - q * q) * p"
    using r0 r1 p0 by simp
  have "(q * q + (1 - q * q) * p \<le> 1) = ((1 - q * q) * p \<le> (1 - q * q) * 1)"
    by auto
  also have "\<dots> = (p \<le> 1)"
    using r1 by (subst mult_le_cancel_left_pos) simp_all
  also have "\<dots> = (0 \<le> cosine)"
  proof
    assume "p \<le> 1"
    show "0 \<le> cosine"
    proof (rule ccontr)
      assume "\<not> 0 \<le> cosine"
      then have "1 < 1 - cosine" by simp
      then have "1 < (1 - cosine) ^ 5" by (rule one_less_power) simp
      with \<open>p \<le> 1\<close> show False by (simp add: p_def)
    qed
  next
    assume "0 \<le> cosine"
    with c show "p \<le> 1" by (simp add: p_def power_le_one)
  qed
  finally have hi: "(q * q + (1 - q * q) * p \<le> 1) = (0 \<le> cosine)" .
  have one: "reflectance 1 ref_idx = ((1 - ref_idx) / (1 + ref_idx))\<^sup>2"
    by (simp add: reflectance_def power2_eq_square)
  from e lo hi one show ?thesis by simp
qed

theorem reflectance_bounds_witness:
  "- 1 \<le> (1 / 2 :: real) \<and> (1 / 2 :: real) \<le> 1 \<and> (0 :: real) < 3
   \<and> 0 \<le> reflectance (1 / 2) 3 \<and> reflectance (1 / 2) 3 \<le> 1
   \<and> reflectance 1 3 = 1 / 4"
proof -
  have h: "- 1 \<le> (1 / 2 :: real)" "(1 / 2 :: real) \<le> 1" "(0 :: real) < 3" by simp_all
  from reflectance_bounds [OF h] h show ?thesis
    by (simp add: power2_eq_square)
qed

text \<open>
  The claim as the specification states it fails at cosine \<open>-1\<close> (inside
  \<open>[-1, 1]\<close>, and the value the clamp of \<open>cos_theta\<close> lets through) with index 1:
  \<open>r0 = 0\<close> and \<open>(1 - cosine) ^ 5 = 32\<close>.
\<close>

theorem reflectance_exceeds_one:
  "- 1 \<le> (- 1 :: real) \<and> (- 1 :: real) \<le> 1 \<and> (0 :: real) < 1
   \<and> reflectance (- 1) 1 = 32 \<and> \<not> reflectance (- 1) 1 \<le> 1"
  by (simp add: reflectance_def)

section \<open>Properties of the shading evaluator\<close>

lemma bling_phong_lights_ambient:
  "ls \<noteq> [] \<Longrightarrow>
   fst (bling_phong_lights R r hrec ls acc) = ka (mat hrec) *\<^sub>R Ia (ambient_light (lights R))"
proof (induction ls arbitrary: acc)
  case Nil
  then show ?case by simp
next
  case (Cons l ls)
  show ?case
  proof (cases ls)
    case Nil
    then show ?thesis
      by (cases acc) (simp add: bling_phong_light_def Let_def)
  next
    case (Cons l' ls')
    with Cons.IH show ?thesis by simp
  qed
qed



text \<open>
  Claim C9. With at least one point light, the ambient colour after the loop over the
  lights is \<open>ka * Ia\<close>, whatever the number of lights, and the returned colour is
  that ambient colour plus \<open>kd * diffuse_color\<close> times the accumulated diffuse
  colour plus \<open>ks\<close> times the accumulated specular colour: the ambient term enters
  once.
\<close>

theorem ambient_term_once:
  "point_lights (lights R) \<noteq> [] \<Longrightarrow>
   fst (bling_phong_lights R r hrec (point_lights (lights R))
          (vec3 0 0 0, vec3 0 0 0, vec3 0 0 0))
       = ka (mat hrec) *\<^sub>R Ia (ambient_light (lights R))
   \<and> bling_phong R r hrec =
       ka (mat hrec) *\<^sub>R Ia (ambient_light (lights R))
       + (kd (mat hrec) *\<^sub>R diffuse_color (mat hrec))
           * fst (snd (bling_phong_lights R r hrec (point_lights (lights R))
                        (vec3 0 0 0, vec3 0 0 0, vec3 0 0 0)))
       + ks (mat hrec) *\<^sub>R
           snd (snd (bling_phong_lights R r hrec (point_lights (lights R))
                        (vec3 0 0 0, vec3 0 0 0, vec3 0 0 0)))"
proof -
  assume ne: "point_lights (lights R) \<noteq> []"
  let ?res = "bling_phong_lights R r hrec (point_lights (lights R))
                (vec3 0 0 0, vec3 0 0 0, vec3 0 0 0)"
  have a: "fst ?res = ka (mat hrec) *\<^sub>R Ia (ambient_light (lights R))"
    using ne by (rule bling_phong_lights_ambient)
  have b: "bling_phong R r hrec =
        fst ?res + (kd (mat hrec) *\<^sub>R diffuse_color (mat hrec)) * fst (snd ?res)
          + ks (mat hrec) *\<^sub>R snd (snd ?res)"
    by (simp add: bling_phong_def split: prod.splits)
  from a b show ?thesis by simp
qed

theorem ambient_term_once_witness:
  "point_lights (lights (demo_renderer [] [side_light, side_light, side_light])) \<noteq> []
   \<and> fst (bling_phong_lights (demo_renderer [] [side_light, side_light, side_light])
            down_ray floor_rec [side_light, side_light, side_light]
            (vec3 0 0 0, vec3 0 0 0, vec3 0 0 0))
       = vec3 (1 / 2) (1 / 2) (1 / 2)"
proof -
  have ne: "point_lights (lights (demo_renderer [] [side_light, side_light, side_light])) \<noteq> []"
    by (simp add: demo_renderer_def)
  have l: "point_lights (lights (demo_renderer [] [side_light, side_light, side_light]))
             = [side_light, side_light, side_light]"
    by (simp add: demo_renderer_def)
  have v: "ka (mat floor_rec) *\<^sub>R
             Ia (ambient_light (lights (demo_renderer [] [side_light, side_light, side_light])))
           = vec3 (1 / 2) (1 / 2) (1 / 2)"
    by (simp add: demo_renderer_def floor_rec_def demo_material_def vec3_ops)
  from ambient_term_once [OF ne, of down_ray floor_rec] ne show ?thesis
    unfolding l v by simp
qed




section \<open>Properties of the task dispatch loop\<close>

lemma same_config_trans: "same_config R R1 \<Longrightarrow> same_config R1 R2 \<Longrightarrow> same_config R R2"
  by (simp add: same_config_def)

lemma body_continue_config:
  "ray_color_body R i j g = Some (Continue R' g') \<Longrightarrow> same_config R R'"
  by (auto simp: ray_color_body_def ray_color_process_def ray_color_merge_def
        ray_color_reflective_def Let_def same_config_def
      split: sum.splits if_splits option.splits prod.splits)

lemma body_break_config:
  "ray_color_body R i j g = Some (Break R' g') \<Longrightarrow> same_config R R'"
  by (auto simp: ray_color_body_def ray_color_process_def ray_color_merge_def
        ray_color_reflective_def Let_def same_config_def
      split: sum.splits if_splits option.splits prod.splits)

lemma loop_keeps_config_aux:
  assumes "ray_color_loop R i j g = Some y"
  shows "\<forall>R' g'. y = Inr (R', g') \<longrightarrow> same_config R R'"
proof (rule ray_color_loop.raw_induct
    [where P = "\<lambda>R i j g y. \<forall>R' g'. y = Inr (R', g') \<longrightarrow> same_config R R'", OF _ assms],
    goal_cases)
  case (1 loop R i j g y)
  show ?case
  proof (cases "stack_empty (status_stack R) i j")
    case True
    with 1(2) have "y = Inr (R, g)" by simp
    then show ?thesis by (simp add: same_config_def)
  next
    case False
    note ne = this
    show ?thesis
    proof (cases "ray_color_body R i j g")
      case None
      with 1(2) ne show ?thesis by simp
    next
      case (Some out)
      show ?thesis
      proof (cases out)
        case (Continue R1 g1)
        with Some 1(2) ne have "loop R1 i j g1 = Some y" by simp
        then have a: "\<forall>R' g'. y = Inr (R', g') \<longrightarrow> same_config R1 R'" by (rule 1(1))
        from Some Continue have b: "same_config R R1"
          by (simp add: body_continue_config)
        from a b show ?thesis by (blast intro: same_config_trans)
      next
        case (Break R1 g1)
        with Some 1(2) ne have y: "y = Inr (R1, g1)" by simp
        from Some Break have "same_config R R1"
          by (simp add: body_break_config)
        with y show ?thesis by simp
      next
        case (Fault e)
        with Some 1(2) ne have "y = Inl e" by simp
        then show ?thesis by simp
      qed
    qed
  qed
qed

lemma loop_keeps_config:
  "ray_color_loop R i j g = Some (Inr (R', g')) \<Longrightarrow> same_config R R'"
  using loop_keeps_config_aux [of R i j g "Inr (R', g')"] by simp

lemma start_config: "background_color (ray_color_start R i j r) = background_color R"
  by (simp add: ray_color_start_def Let_def)


lemma top_not_empty: "stack_top s i j = Inr v \<Longrightarrow> \<not> stack_empty s i j"
  by (simp add: stack_top_def stack_empty_def split: if_splits)


lemma start_fields:
  "background_color (ray_color_start R i j r) = background_color R"
  "Renderer.max_depth (ray_color_start R i j r) = Renderer.max_depth R"
  "world (ray_color_start R i j r) = world R"
  "result_stack (ray_color_start R i j r) = stack_clear (result_stack R) i j"
  "status_stack (ray_color_start R i j r) =
     snd (stack_push (stack_clear (status_stack R) i j) i j
            \<lparr>task_type = TASK_PROCESS, depth = 0, ray = r, kr = 1\<rparr>)"
  by (simp_all add: ray_color_start_def Let_def)



lemma at_bound_top: "stack_top (status_stack renderer_at_bound) 0 0 = Inr frame_at_bound"
  by (simp add: renderer_at_bound_def demo_renderer_def stack_init_def stack_push_def
      stack_top_def)


text \<open>
  Claim C6. When the frame taken from the task stack is a \<open>PROCESS\<close> frame whose depth
  has reached \<open>max_depth\<close>, the round pushes the colour \<open>(0, 0, 0)\<close> on the result
  stack and goes on with the loop: the task stack has lost the frame and gained none, the
  scene is not consulted (the round does the same whatever the scene is), the generator
  is untouched, and where the result stack has room its new top is \<open>(0, 0, 0)\<close>.
\<close>

theorem depth_bound_pushes_black:
  "stack_top (status_stack R) i j = Inr frame \<Longrightarrow> task_type frame = TASK_PROCESS \<Longrightarrow>
   Renderer.max_depth R \<le> depth frame \<Longrightarrow>
   R' = R\<lparr>status_stack := snd (stack_pop (status_stack R) i j),
          result_stack := snd (stack_push (result_stack R) i j (vec3 0 0 0))\<rparr> \<Longrightarrow>
   ray_color_body R i j g = Some (Continue R' g)
   \<and> ray_color_body (R\<lparr>world := w\<rparr>) i j g = Some (Continue (R'\<lparr>world := w\<rparr>) g)
   \<and> ray_color_loop R i j g = ray_color_loop R' i j g
   \<and> stack (status_stack R') = stack (status_stack R)
   \<and> ptr (status_stack R') (i, j) = ptr (status_stack R) (i, j) - 1
   \<and> (- 1 \<le> ptr (result_stack R) (i, j)
        \<and> ptr (result_stack R) (i, j) + 1 < Stack.max_depth (result_stack R) \<longrightarrow>
        stack_top (result_stack R') i j = Inr (vec3 0 0 0)
        \<and> ptr (result_stack R') (i, j) = ptr (result_stack R) (i, j) + 1)"
proof -
  assume top: "stack_top (status_stack R) i j = Inr frame"
    and ty: "task_type frame = TASK_PROCESS"
    and d: "Renderer.max_depth R \<le> depth frame"
    and R': "R' = R\<lparr>status_stack := snd (stack_pop (status_stack R) i j),
          result_stack := snd (stack_push (result_stack R) i j (vec3 0 0 0))\<rparr>"
  have b: "ray_color_body R i j g = Some (Continue R' g)"
    using top ty d R' by (simp add: ray_color_body_def ray_color_process_def)
  have bw: "ray_color_body (R\<lparr>world := w\<rparr>) i j g = Some (Continue (R'\<lparr>world := w\<rparr>) g)"
    using top ty d R' by (simp add: ray_color_body_def ray_color_process_def)
  from top have ne: "\<not> stack_empty (status_stack R) i j"
    by (rule top_not_empty)
  have l: "ray_color_loop R i j g = ray_color_loop R' i j g"
    by (subst ray_color_loop.simps) (simp add: ne b)
  from top have p: "0 \<le> ptr (status_stack R) (i, j)"
    by (simp add: stack_top_def split: if_splits)
  have s: "stack (status_stack R') = stack (status_stack R)"
    "ptr (status_stack R') (i, j) = ptr (status_stack R) (i, j) - 1"
    using p by (simp_all add: R' stack_pop_def)
  have t: "stack_top (result_stack R') i j = Inr (vec3 0 0 0)
        \<and> ptr (result_stack R') (i, j) = ptr (result_stack R) (i, j) + 1"
    if "- 1 \<le> ptr (result_stack R) (i, j)"
      "ptr (result_stack R) (i, j) + 1 < Stack.max_depth (result_stack R)"
    using that by (simp add: R' stack_push_def stack_top_def)
  from b bw l s t show ?thesis by blast
qed

theorem depth_bound_pushes_black_witness:
  "stack_top (status_stack renderer_at_bound) 0 0 = Inr frame_at_bound
   \<and> task_type frame_at_bound = TASK_PROCESS
   \<and> Renderer.max_depth renderer_at_bound \<le> depth frame_at_bound
   \<and> ray_color_body renderer_at_bound 0 0 steady_rng
       = Some (Continue
           (renderer_at_bound
              \<lparr>status_stack := snd (stack_pop (status_stack renderer_at_bound) 0 0),
               result_stack := snd (stack_push (result_stack renderer_at_bound) 0 0 (vec3 0 0 0))\<rparr>)
           steady_rng)
   \<and> stack_top (snd (stack_push (result_stack renderer_at_bound) 0 0 (vec3 0 0 0))) 0 0
       = Inr (vec3 0 0 0)"
proof -
  have ty: "task_type frame_at_bound = TASK_PROCESS"
    by (simp add: frame_at_bound_def)
  have d: "Renderer.max_depth renderer_at_bound \<le> depth frame_at_bound"
    by (simp add: renderer_at_bound_def demo_renderer_def frame_at_bound_def)
  have c: "- 1 \<le> ptr (result_stack renderer_at_bound) (0, 0)
        \<and> ptr (result_stack renderer_at_bound) (0, 0) + 1
            < Stack.max_depth (result_stack renderer_at_bound)"
    by (simp add: renderer_at_bound_def demo_renderer_def stack_init_def)
  from depth_bound_pushes_black [OF at_bound_top ty d refl, of steady_rng] at_bound_top ty d c
  show ?thesis by simp
qed



lemma top_range:
  "stack_top s i j = Inr v \<Longrightarrow>
   0 \<le> ptr s (i, j) \<and> ptr s (i, j) < Stack.max_depth s \<and> v = stack s (i, j, ptr s (i, j))"
  by (auto simp: stack_top_def split: if_splits)

lemma steady_unit_vector:
  "random_unit_vector steady_rng = Some (normalized (vec3 (1 / 2) (1 / 2) (1 / 2)), steady_rng)"
proof -
  have r: "rand3 steady_rng = (vec3 (3 / 4) (3 / 4) (3 / 4), steady_rng)"
    by (simp add: rand3_def random_def steady_rng_def)
  have n: "\<not> norm3 (vec3 (1 / 2) (1 / 2) (1 / 2)) \<ge> 1"
    by (simp add: norm3_def dot_def)
  have l: "random_in_unit_sphere_loop (vec3 (1 / 2) (1 / 2) (1 / 2)) steady_rng
             = Some (vec3 (1 / 2) (1 / 2) (1 / 2), steady_rng)"
    by (subst random_in_unit_sphere_loop.simps) (simp only: n if_False)
  have s: "random_in_unit_sphere steady_rng = Some (vec3 (1 / 2) (1 / 2) (1 / 2), steady_rng)"
    by (simp add: random_in_unit_sphere_def r vec3_ops l)
  show ?thesis
    by (simp add: random_unit_vector_def s)
qed

lemmas run_simps =
  ray_color_body_def ray_color_process_def ray_color_reflective_def ray_color_merge_def
  merge_frame_of_def reflect_frame_of_def refract_frame_of_def ref_idx_of_def
  Let_def stack_top_def stack_push_def stack_pop_def stack_empty_def stack_clear_def
  stack_init_def demo_renderer_def two_surfaces_def floor_hit_def ceiling_hit_def
  floor_rec_def down_ray_def hit_def less_bound_def
  steady_unit_vector demo_material_def TASK_PROCESS_def TASK_MERGE_def eps_def vec3_ops
  HitRecord_new_def

lemmas shade_simps =
  bling_phong_def bling_phong_light_def in_shadow_def shadow_orig_def lamp_def
  normalized_def norm3_def dot_def distance_def reflect_def reflectance_def pow_def splat_def

lemma two_mirrors_loop:
  "results_held (ray_color_loop
       (ray_color_start (demo_renderer [two_surfaces REFLECTION REFLECTION] []) 0 0 down_ray)
       0 0 steady_rng) 0 0 = Some 2"
  apply (simp add: ray_color_start_def run_simps)
  apply (subst ray_color_loop.simps)
  apply (simp add: run_simps)
  apply (subst ray_color_loop.simps)
  apply (simp add: run_simps)
  apply (subst ray_color_loop.simps)
  apply (simp add: run_simps)
  apply (simp add: results_held_def)
  done

lemma two_mirrors_pixel:
  "pixel_of (ray_color (demo_renderer [two_surfaces REFLECTION REFLECTION] []) 0 0 down_ray
       steady_rng) = Some (vec3 0 0 (99 / 100))"
  apply (simp add: ray_color_def ray_color_start_def run_simps)
  apply (subst ray_color_loop.simps)
  apply (simp add: run_simps)
  apply (subst ray_color_loop.simps)
  apply (simp add: run_simps)
  apply (subst ray_color_loop.simps)
  apply (simp add: run_simps)
  apply (simp add: pixel_of_def ray_color_finish_def run_simps)
  done

lemma mirror_run:
  "pixel_of (ray_color (demo_renderer [two_surfaces REFLECTION DIFFUSE] [lamp]) 0 0 down_ray
       steady_rng) = Some (vec3 (9 / 8) (3 / 8) (249 / 400))"
  apply (simp add: ray_color_def ray_color_start_def run_simps)
  apply (subst ray_color_loop.simps)
  apply (simp add: run_simps shade_simps)
  apply (subst ray_color_loop.simps)
  apply (simp add: run_simps shade_simps)
  apply (subst ray_color_loop.simps)
  apply (simp add: run_simps shade_simps)
  apply (subst ray_color_loop.simps)
  apply (simp add: run_simps shade_simps)
  apply (simp add: pixel_of_def ray_color_finish_def run_simps)
  done

lemma mirror_kr:
  "kr (merge_frame_of (primary_frame down_ray) (floor_hit REFLECTION)) = 1 / 4"
  by (simp add: merge_frame_of_def primary_frame_def down_ray_def floor_hit_def floor_rec_def
      demo_material_def ref_idx_of_def reflectance_def normalized_def norm3_def dot_def Let_def)

lemma mirror_reflect_frame:
  "reflect_frame_of (demo_renderer ws ls) (primary_frame down_ray) (floor_hit REFLECTION) v
     = \<lparr>task_type = TASK_PROCESS, depth = 1,
        ray = \<lparr>ro = vec3 0 0 (1 / 100000), rd = vec3 0 0 1\<rparr>, kr = 0\<rparr>"
  by (simp add: reflect_frame_of_def primary_frame_def down_ray_def floor_hit_def floor_rec_def
      demo_renderer_def reflect_def normalized_def norm3_def dot_def Let_def eps_def vec3_ops)

lemma ceiling_colour:
  "bling_phong (demo_renderer [two_surfaces REFLECTION DIFFUSE] [lamp])
     \<lparr>ro = vec3 0 0 (1 / 100000), rd = vec3 0 0 1\<rparr> (ceiling_hit DIFFUSE)
   = vec3 (3 / 2) (1 / 2) (1 / 2)"
  by (simp add: run_simps shade_simps)

lemma merge_step:
  assumes "stack_top (result_stack R) i j = Inr a"
    and "stack_top (snd (stack_pop (result_stack R) i j)) i j = Inr b"
  shows "ray_color_merge R i j frame g =
     Some (Continue
       (R\<lparr>result_stack :=
            snd (stack_push (snd (stack_pop (snd (stack_pop (result_stack R) i j)) i j)) i j
                   (kr frame *\<^sub>R b + (1 - kr frame) *\<^sub>R a))\<rparr>) g)"
  using assms by (simp add: ray_color_merge_def Let_def)

lemma merge_demo_tops:
  "stack_top (result_stack merge_demo) 0 0 = Inr (vec3 1 0 0)"
  "stack_top (snd (stack_pop (result_stack merge_demo) 0 0)) 0 0 = Inr (vec3 0 0 0)"
  by (simp_all add: merge_demo_def demo_renderer_def stack_init_def stack_push_def
      stack_pop_def stack_top_def)

lemma rounds_loop:
  "ray_color_rounds n R i j g = Some (Continue R' g') \<Longrightarrow>
   ray_color_loop R i j g = ray_color_loop R' i j g'"
proof (induction n arbitrary: R g)
  case 0
  then show ?case by simp
next
  case (Suc n)
  from Suc.prems have ne: "\<not> stack_empty (status_stack R) i j"
    by (simp split: if_splits)
  from Suc.prems ne obtain R1 g1 where b: "ray_color_body R i j g = Some (Continue R1 g1)"
    and r: "ray_color_rounds n R1 i j g1 = Some (Continue R' g')"
    by (auto split: option.splits outcome.splits)
  have "ray_color_loop R i j g = ray_color_loop R1 i j g1"
    by (subst ray_color_loop.simps) (simp add: ne b)
  with Suc.IH [OF r] show ?case by simp
qed

lemma bling_phong_light_config:
  "same_config R R' \<Longrightarrow> bling_phong_light R' r hrec l acc = bling_phong_light R r hrec l acc"
  by (simp add: bling_phong_light_def in_shadow_def same_config_def)

lemma bling_phong_lights_config:
  "same_config R R' \<Longrightarrow> bling_phong_lights R' r hrec ls acc = bling_phong_lights R r hrec ls acc"
  by (induction ls arbitrary: acc) (simp_all add: bling_phong_light_config)

lemma bling_phong_config:
  "same_config R R' \<Longrightarrow> bling_phong R' r hrec = bling_phong R r hrec"
  by (simp add: bling_phong_def bling_phong_lights_config) (simp add: same_config_def)

lemma same_config_status: "same_config R (R\<lparr>status_stack := s\<rparr>)"
  by (simp add: same_config_def)

lemma one_round:
  "\<not> stack_empty (status_stack R) i j \<Longrightarrow> ray_color_body R i j g = Some (Continue R' g') \<Longrightarrow>
   ray_color_rounds (Suc 0) R i j g = Some (Continue R' g')"
  by simp

lemma push_result_completes:
  assumes top: "stack_top (status_stack R) i j = Inr frame"
    and b: "ray_color_body R i j g = Some (Continue R' g)"
    and R': "R' = R\<lparr>status_stack := snd (stack_pop (status_stack R) i j),
                    result_stack := snd (stack_push (result_stack R) i j c)\<rparr>"
    and q: "- 1 \<le> ptr (result_stack R) (i, j)"
      "ptr (result_stack R) (i, j) + 1 < Stack.max_depth (result_stack R)"
  shows "completes i j R g c R' g"
proof -
  from top have ne: "\<not> stack_empty (status_stack R) i j"
    by (rule top_not_empty)
  from one_round [OF ne b] have r: "\<exists>n. ray_color_rounds n R i j g = Some (Continue R' g)"
    by blast
  from top_range [OF top] have p: "0 \<le> ptr (status_stack R) (i, j)"
    by simp
  from r p q show ?thesis
    unfolding completes_def R'
    by (simp add: stack_pop_def stack_push_def stack_top_def)
qed

lemma bound_completes:
  assumes top: "stack_top (status_stack R) i j = Inr frame"
    and ty: "task_type frame = TASK_PROCESS"
    and d: "Renderer.max_depth R \<le> depth frame"
    and q: "- 1 \<le> ptr (result_stack R) (i, j)"
      "ptr (result_stack R) (i, j) + 1 < Stack.max_depth (result_stack R)"
  shows "completes i j R g (vec3 0 0 0)
           (R\<lparr>status_stack := snd (stack_pop (status_stack R) i j),
              result_stack := snd (stack_push (result_stack R) i j (vec3 0 0 0))\<rparr>) g"
proof (rule push_result_completes [OF top _ refl q])
  show "ray_color_body R i j g =
    Some (Continue (R\<lparr>status_stack := snd (stack_pop (status_stack R) i j),
              result_stack := snd (stack_push (result_stack R) i j (vec3 0 0 0))\<rparr>) g)"
    using top ty d by (simp add: ray_color_body_def ray_color_process_def)
qed

lemma diffuse_completes:
  assumes top: "stack_top (status_stack R) i j = Inr frame"
    and ty: "task_type frame = TASK_PROCESS"
    and d: "depth frame < Renderer.max_depth R"
    and h: "hrec = hit (world R) (ray frame) None"
    and ih: "is_hit hrec"
    and m: "m_type (mat hrec) = DIFFUSE"
    and q: "- 1 \<le> ptr (result_stack R) (i, j)"
      "ptr (result_stack R) (i, j) + 1 < Stack.max_depth (result_stack R)"
  shows "completes i j R g (bling_phong R (ray frame) hrec)
           (R\<lparr>status_stack := snd (stack_pop (status_stack R) i j),
              result_stack := snd (stack_push (result_stack R) i j
                                     (bling_phong R (ray frame) hrec))\<rparr>) g"
proof (rule push_result_completes [OF top _ refl q])
  show "ray_color_body R i j g =
    Some (Continue (R\<lparr>status_stack := snd (stack_pop (status_stack R) i j),
              result_stack := snd (stack_push (result_stack R) i j
                                     (bling_phong R (ray frame) hrec))\<rparr>) g)"
    using top ty d h ih m
    by (simp add: ray_color_body_def ray_color_process_def Let_def
        bling_phong_config [OF same_config_status])
qed

lemma merge_after_child:
  assumes m: "stack (status_stack R1) (i, j, p) = mf"
    and p1: "ptr (status_stack R1) (i, j) = p + 1" and p0: "0 \<le> p"
    and pd: "p < Stack.max_depth (status_stack R1)"
    and t: "stack_top (result_stack R1) i j = Inr c1"
    and c2: "completes i j R1 g1 c2 R2 g2"
  shows "stack_top (status_stack R2) i j = Inr mf
     \<and> stack_top (result_stack R2) i j = Inr c2
     \<and> stack_top (snd (stack_pop (result_stack R2) i j)) i j = Inr c1"
proof -
  from c2 p1 have s: "ptr (status_stack R2) (i, j) = p"
    "Stack.max_depth (status_stack R2) = Stack.max_depth (status_stack R1)"
    "stack (status_stack R2) (i, j, p) = stack (status_stack R1) (i, j, p)"
    by (simp_all add: completes_def)
  from s m p0 pd have a: "stack_top (status_stack R2) i j = Inr mf"
    by (simp add: stack_top_def)
  from c2 have b: "stack_top (result_stack R2) i j = Inr c2"
    by (simp add: completes_def)
  from c2 have q: "ptr (result_stack R2) (i, j) = ptr (result_stack R1) (i, j) + 1"
    "Stack.max_depth (result_stack R2) = Stack.max_depth (result_stack R1)"
    "stack (result_stack R2) (i, j, ptr (result_stack R1) (i, j))
       = stack (result_stack R1) (i, j, ptr (result_stack R1) (i, j))"
    by (simp_all add: completes_def)
  from top_range [OF t] q have c: "stack_top (snd (stack_pop (result_stack R2) i j)) i j = Inr c1"
    by (simp add: stack_pop_def stack_top_def)
  from a b c show ?thesis by simp
qed

lemma merge_after_children:
  assumes m: "stack (status_stack R1) (i, j, p) = mf"
    and p1: "ptr (status_stack R1) (i, j) = p + 2" and p0: "0 \<le> p"
    and pd: "p < Stack.max_depth (status_stack R1)"
    and c1: "completes i j R1 g1 c1 R2 g2"
    and c2: "completes i j R2 g2 c2 R3 g3"
  shows "stack_top (status_stack R3) i j = Inr mf
     \<and> stack_top (result_stack R3) i j = Inr c2
     \<and> stack_top (snd (stack_pop (result_stack R3) i j)) i j = Inr c1"
proof -
  from c1 p1 m have "stack (status_stack R2) (i, j, p) = mf"
    "ptr (status_stack R2) (i, j) = p + 1"
    "p < Stack.max_depth (status_stack R2)"
    using pd by (simp_all add: completes_def)
  moreover from c1 have "stack_top (result_stack R2) i j = Inr c1"
    by (simp add: completes_def)
  ultimately show ?thesis
    using p0 c2 by (intro merge_after_child) simp_all
qed


lemma reflect_frame_of_stacks [simp]:
  "reflect_frame_of (R\<lparr>status_stack := s\<rparr>) frame hrec u = reflect_frame_of R frame hrec u"
  by (simp add: reflect_frame_of_def)


lemma start_status:
  "0 < Stack.max_depth (status_stack R) \<Longrightarrow>
   stack_top (status_stack (ray_color_start R i j r)) i j = Inr (primary_frame r)"
  "0 < Stack.max_depth (status_stack R) \<Longrightarrow>
   ptr (status_stack (ray_color_start R i j r)) (i, j) = 0"
  "Stack.max_depth (status_stack (ray_color_start R i j r)) = Stack.max_depth (status_stack R)"
  by (simp_all add: start_fields primary_frame_def stack_clear_def stack_push_def stack_top_def)

lemma start_result:
  "ptr (result_stack (ray_color_start R i j r)) (i, j) = - 1"
  "Stack.max_depth (result_stack (ray_color_start R i j r)) = Stack.max_depth (result_stack R)"
  by (simp_all add: start_fields stack_clear_def)

lemma start_same_config: "same_config R (ray_color_start R i j r)"
  by (simp add: same_config_def ray_color_start_def Let_def)

lemma demo_renderer_init:
  "demo_renderer ws ls =
     (Renderer_init (vec3 0 0 1) 10 50 0)
       \<lparr>lights := \<lparr>ambient_light = \<lparr>Ia = vec3 1 1 1\<rparr>, point_lights = ls\<rparr>,
        world := \<lparr>objs = ws\<rparr>\<rparr>"
  by (simp add: demo_renderer_def Renderer_init_def)







lemma primary_frame_fields:
  "task_type (primary_frame r) = TASK_PROCESS" "depth (primary_frame r) = 0"
  "ray (primary_frame r) = r"
  by (simp_all add: primary_frame_def)

lemma child_frame_fields:
  "task_type (reflect_frame_of R f h v) = TASK_PROCESS"
  "depth (reflect_frame_of R f h v) = depth f + 1"
  "task_type (refract_frame_of f h) = TASK_PROCESS"
  "depth (refract_frame_of f h) = depth f + 1"
  by (simp_all add: reflect_frame_of_def refract_frame_of_def Let_def)






text \<open>
  Claim C4, as the code has it. When \<open>ray_color\<close> returns a colour, the loop has
  returned; if the result stack then holds at least one colour, the colour returned is
  the one on top (with exactly one colour, that one), and if it holds none, the colour
  returned is the background colour.
\<close>

theorem pixel_is_top_result:
  "ray_color R i j r g = Some (Inr (c, R2, g')) \<Longrightarrow>
   (\<exists>R1. ray_color_loop (ray_color_start R i j r) i j g = Some (Inr (R1, g'))
      \<and> (0 \<le> ptr (result_stack R1) (i, j) \<longrightarrow>
            c = stack (result_stack R1) (i, j, ptr (result_stack R1) (i, j)))
      \<and> (ptr (result_stack R1) (i, j) < 0 \<longrightarrow> c = background_color R))"
proof -
  assume rc: "ray_color R i j r g = Some (Inr (c, R2, g'))"
  then obtain R1 where l: "ray_color_loop (ray_color_start R i j r) i j g = Some (Inr (R1, g'))"
    and f: "ray_color_finish R1 i j = Inr (c, R2)"
    by (auto simp: ray_color_def split: option.splits sum.splits prod.splits)
  from loop_keeps_config [OF l] have bg: "background_color R1 = background_color R"
    by (simp add: same_config_def start_config)
  from f bg have "(0 \<le> ptr (result_stack R1) (i, j) \<longrightarrow>
            c = stack (result_stack R1) (i, j, ptr (result_stack R1) (i, j)))
      \<and> (ptr (result_stack R1) (i, j) < 0 \<longrightarrow> c = background_color R)"
    by (auto simp: ray_color_finish_def stack_empty_def stack_top_def split: if_splits sum.splits)
  with l show ?thesis by blast
qed

lemma pixel_of_Some:
  "pixel_of res = Some c \<Longrightarrow> \<exists>R g. res = Some (Inr (c, R, g))"
  by (auto simp: pixel_of_def split: option.splits sum.splits)

theorem pixel_is_top_result_witness:
  "\<exists>R1 g'. ray_color_loop
              (ray_color_start (demo_renderer [two_surfaces REFLECTION DIFFUSE] [lamp]) 0 0 down_ray)
              0 0 steady_rng = Some (Inr (R1, g'))
       \<and> 0 \<le> ptr (result_stack R1) (0, 0)
       \<and> pixel_of (ray_color (demo_renderer [two_surfaces REFLECTION DIFFUSE] [lamp]) 0 0
                     down_ray steady_rng)
           = Some (stack (result_stack R1) (0, 0, ptr (result_stack R1) (0, 0)))"
proof -
  let ?R = "demo_renderer [two_surfaces REFLECTION DIFFUSE] [lamp]"
  from pixel_of_Some [OF mirror_run] obtain R2 g'
    where rc: "ray_color ?R 0 0 down_ray steady_rng
                 = Some (Inr (vec3 (9 / 8) (3 / 8) (249 / 400), R2, g'))"
    by blast
  from pixel_is_top_result [OF rc] obtain R1
    where l: "ray_color_loop (ray_color_start ?R 0 0 down_ray) 0 0 steady_rng = Some (Inr (R1, g'))"
      and t: "0 \<le> ptr (result_stack R1) (0, 0) \<longrightarrow>
            vec3 (9 / 8) (3 / 8) (249 / 400)
              = stack (result_stack R1) (0, 0, ptr (result_stack R1) (0, 0))"
      and b: "ptr (result_stack R1) (0, 0) < 0 \<longrightarrow>
            vec3 (9 / 8) (3 / 8) (249 / 400) = background_color ?R"
    by blast
  have "vec3 (9 / 8) (3 / 8) (249 / 400) \<noteq> background_color ?R"
    by (simp add: demo_renderer_def)
  with b have p: "0 \<le> ptr (result_stack R1) (0, 0)" by auto
  with t have "pixel_of (ray_color ?R 0 0 down_ray steady_rng)
           = Some (stack (result_stack R1) (0, 0, ptr (result_stack R1) (0, 0)))"
    by (simp add: mirror_run)
  with l p show ?thesis by blast
qed

text \<open>
  The claim as the specification states it fails when the loop leaves more than one
  colour on the result stack. The primary ray hits a mirror, the reflected ray hits a
  second mirror, and the ray reflected there misses: the loop breaks with the two
  colours \<open>0.99 * background_color\<close> of the two mirrors on the result stack, and the
  pixel is the top one, not the background colour.
\<close>

theorem two_mirrors_pixel_not_background:
  "results_held (ray_color_loop
       (ray_color_start (demo_renderer [two_surfaces REFLECTION REFLECTION] []) 0 0 down_ray)
       0 0 steady_rng) 0 0 = Some 2
   \<and> pixel_of (ray_color (demo_renderer [two_surfaces REFLECTION REFLECTION] []) 0 0 down_ray
        steady_rng) = Some (vec3 0 0 (99 / 100))
   \<and> background_color (demo_renderer [two_surfaces REFLECTION REFLECTION] []) = vec3 0 0 1"
  using two_mirrors_loop two_mirrors_pixel by (simp add: demo_renderer_def)

text \<open>
  Claim C1 evaluated. A \<open>MERGE\<close> frame of coefficient \<open>kr = 1\<close> runs on a result
  stack whose top is \<open>(1, 0, 0)\<close> and whose next colour is \<open>(0, 0, 0)\<close>: the first
  colour popped is \<open>(1, 0, 0)\<close>, the second is \<open>(0, 0, 0)\<close>, and the colour pushed
  is \<open>(0, 0, 0)\<close>, that is \<open>kr\<close> times the second plus \<open>1 - kr\<close> times the
  first. In a whole trace: the primary ray hits a mirror (\<open>kr = 1/4\<close>), the colour
  \<open>0.99 * background_color = (0, 0, 0.99)\<close> is pushed in place of a refracted colour,
  the reflected ray hits a diffuse ceiling of colour \<open>(3/2, 1/2, 1/2)\<close>, which is
  pushed on top, and the pixel is \<open>1/4 * (0, 0, 0.99) + 3/4 * (3/2, 1/2, 1/2)\<close>: the
  reflected colour is weighted by \<open>1 - kr\<close>.
\<close>

theorem merge_weights_swapped:
  "stack_top (result_stack merge_demo) 0 0 = Inr (vec3 1 0 0)
   \<and> stack_top (snd (stack_pop (result_stack merge_demo) 0 0)) 0 0 = Inr (vec3 0 0 0)
   \<and> kr merge_demo_frame = 1
   \<and> ray_color_merge merge_demo 0 0 merge_demo_frame steady_rng =
       Some (Continue
         (merge_demo\<lparr>result_stack :=
            snd (stack_push (snd (stack_pop (snd (stack_pop (result_stack merge_demo) 0 0)) 0 0))
                   0 0 (vec3 0 0 0))\<rparr>) steady_rng)
   \<and> kr (merge_frame_of (primary_frame down_ray) (floor_hit REFLECTION)) = 1 / 4
   \<and> bling_phong (demo_renderer [two_surfaces REFLECTION DIFFUSE] [lamp])
        (ray (reflect_frame_of (demo_renderer [two_surfaces REFLECTION DIFFUSE] [lamp])
                (primary_frame down_ray) (floor_hit REFLECTION)
                (normalized (vec3 (1 / 2) (1 / 2) (1 / 2)))))
        (ceiling_hit DIFFUSE)
       = vec3 (3 / 2) (1 / 2) (1 / 2)
   \<and> pixel_of (ray_color (demo_renderer [two_surfaces REFLECTION DIFFUSE] [lamp]) 0 0 down_ray
        steady_rng)
       = Some ((1 / 4) *\<^sub>R vec3 0 0 (99 / 100) + (3 / 4) *\<^sub>R vec3 (3 / 2) (1 / 2) (1 / 2))"
proof -
  have k: "kr merge_demo_frame = 1"
    by (simp add: merge_demo_frame_def)
  have m: "ray_color_merge merge_demo 0 0 merge_demo_frame steady_rng =
       Some (Continue
         (merge_demo\<lparr>result_stack :=
            snd (stack_push (snd (stack_pop (snd (stack_pop (result_stack merge_demo) 0 0)) 0 0))
                   0 0 (vec3 0 0 0))\<rparr>) steady_rng)"
    unfolding merge_step [OF merge_demo_tops] k by (simp add: vec3_ops)
  have c: "bling_phong (demo_renderer [two_surfaces REFLECTION DIFFUSE] [lamp])
        (ray (reflect_frame_of (demo_renderer [two_surfaces REFLECTION DIFFUSE] [lamp])
                (primary_frame down_ray) (floor_hit REFLECTION)
                (normalized (vec3 (1 / 2) (1 / 2) (1 / 2)))))
        (ceiling_hit DIFFUSE)
       = vec3 (3 / 2) (1 / 2) (1 / 2)"
    by (simp add: mirror_reflect_frame ceiling_colour)
  have v: "(1 / 4) *\<^sub>R vec3 0 0 (99 / 100) + (3 / 4) *\<^sub>R vec3 (3 / 2) (1 / 2) (1 / 2)
             = vec3 (9 / 8) (3 / 8) (249 / 400)"
    by (simp add: vec3_ops)
  from merge_demo_tops k m mirror_kr c mirror_run v show ?thesis by simp
qed

section \<open>The loop computes the recursion\<close>

lemma rounds_append:
  "ray_color_rounds m R i j g = Some (Continue R1 g1) \<Longrightarrow>
   ray_color_rounds n R1 i j g1 = Some (Continue R2 g2) \<Longrightarrow>
   ray_color_rounds (m + n) R i j g = Some (Continue R2 g2)"
proof (induction m arbitrary: R g)
  case 0
  then show ?case by simp
next
  case (Suc m)
  from Suc.prems(1) have ne: "\<not> stack_empty (status_stack R) i j"
    by (simp split: if_splits)
  from Suc.prems(1) ne obtain R' g' where b: "ray_color_body R i j g = Some (Continue R' g')"
    and r: "ray_color_rounds m R' i j g' = Some (Continue R1 g1)"
    by (auto split: option.splits outcome.splits)
  from Suc.IH [OF r Suc.prems(2)] ne b show ?case by simp
qed

lemma rounds_first:
  "\<not> stack_empty (status_stack R) i j \<Longrightarrow> ray_color_body R i j g = Some (Continue R1 g1) \<Longrightarrow>
   ray_color_rounds n R1 i j g1 = Some (Continue R2 g2) \<Longrightarrow>
   ray_color_rounds (Suc n) R i j g = Some (Continue R2 g2)"
  by simp

lemma rounds_last:
  assumes r: "ray_color_rounds n R i j g = Some (Continue R1 g1)"
    and ne: "\<not> stack_empty (status_stack R1) i j"
    and b: "ray_color_body R1 i j g1 = Some (Continue R2 g2)"
  shows "ray_color_rounds (n + 1) R i j g = Some (Continue R2 g2)"
proof -
  from ne b have "ray_color_rounds 1 R1 i j g1 = Some (Continue R2 g2)"
    by simp
  from rounds_append [OF r this] show ?thesis .
qed

lemma merge_round:
  assumes top: "stack_top (status_stack R) i j = Inr mf"
    and ty: "task_type mf = TASK_MERGE"
    and a: "stack_top (result_stack R) i j = Inr a"
    and b: "stack_top (snd (stack_pop (result_stack R) i j)) i j = Inr b"
  shows "ray_color_body R i j g =
     Some (Continue
       (R\<lparr>status_stack := snd (stack_pop (status_stack R) i j),
          result_stack :=
            snd (stack_push (snd (stack_pop (snd (stack_pop (result_stack R) i j)) i j)) i j
                   (kr mf *\<^sub>R b + (1 - kr mf) *\<^sub>R a))\<rparr>) g)"
  using assms
  by (simp add: ray_color_body_def ray_color_merge_def Let_def TASK_MERGE_def TASK_PROCESS_def)


lemma mirror_round:
  assumes top: "stack_top (status_stack R) i j = Inr f"
    and ty: "task_type f = TASK_PROCESS"
    and d: "depth f < Renderer.max_depth R"
    and h: "hrec = hit (world R) (ray f) None"
    and ih: "is_hit hrec"
    and m: "m_type (mat hrec) = REFLECTION"
    and u: "random_unit_vector g = Some (u, g1)"
  shows "ray_color_body R i j g =
     Some (Continue
       (R\<lparr>status_stack :=
            snd (stack_push
                  (snd (stack_push (snd (stack_pop (status_stack R) i j)) i j
                          (merge_frame_of f hrec)))
                  i j (reflect_frame_of R f hrec u)),
          result_stack :=
            snd (stack_push (result_stack R) i j ((99 / 100) *\<^sub>R background_color R))\<rparr>) g1)"
  using assms
  by (simp add: ray_color_body_def ray_color_process_def ray_color_reflective_def Let_def)

lemma glass_round:
  assumes top: "stack_top (status_stack R) i j = Inr f"
    and ty: "task_type f = TASK_PROCESS"
    and d: "depth f < Renderer.max_depth R"
    and h: "hrec = hit (world R) (ray f) None"
    and ih: "is_hit hrec"
    and m: "m_type (mat hrec) = REFLECTION_AND_REFRACTION"
    and u: "random_unit_vector g = Some (u, g1)"
  shows "ray_color_body R i j g =
     Some (Continue
       (R\<lparr>status_stack :=
            snd (stack_push
                  (snd (stack_push
                          (snd (stack_push (snd (stack_pop (status_stack R) i j)) i j
                                  (merge_frame_of f hrec)))
                          i j (reflect_frame_of R f hrec u)))
                  i j (refract_frame_of f hrec))\<rparr>) g1)"
  using assms
  by (simp add: ray_color_body_def ray_color_process_def ray_color_reflective_def Let_def)

lemma merge_frame_type: "task_type (merge_frame_of f hrec) = TASK_MERGE"
  by (simp add: merge_frame_of_def Let_def)

lemma mirror_completes:
  assumes top: "stack_top (status_stack R) i j = Inr f"
    and ty: "task_type f = TASK_PROCESS"
    and d: "depth f < Renderer.max_depth R"
    and h: "hrec = hit (world R) (ray f) None"
    and ih: "is_hit hrec"
    and m: "m_type (mat hrec) = REFLECTION"
    and u: "random_unit_vector g = Some (u, g1)"
    and sroom: "ptr (status_stack R) (i, j) + 1 < Stack.max_depth (status_stack R)"
    and q: "- 1 \<le> ptr (result_stack R) (i, j)"
      "ptr (result_stack R) (i, j) + 1 < Stack.max_depth (result_stack R)"
    and R1: "R1 = R\<lparr>status_stack :=
            snd (stack_push
                  (snd (stack_push (snd (stack_pop (status_stack R) i j)) i j
                          (merge_frame_of f hrec)))
                  i j (reflect_frame_of R f hrec u)),
          result_stack :=
            snd (stack_push (result_stack R) i j ((99 / 100) *\<^sub>R background_color R))\<rparr>"
    and child: "completes i j R1 g1 c2 R2 g2"
    and R3: "R3 = R2\<lparr>status_stack := snd (stack_pop (status_stack R2) i j),
          result_stack :=
            snd (stack_push (snd (stack_pop (snd (stack_pop (result_stack R2) i j)) i j)) i j
                   (kr (merge_frame_of f hrec) *\<^sub>R ((99 / 100) *\<^sub>R background_color R)
                      + (1 - kr (merge_frame_of f hrec)) *\<^sub>R c2))\<rparr>"
  shows "completes i j R g
           (kr (merge_frame_of f hrec) *\<^sub>R ((99 / 100) *\<^sub>R background_color R)
              + (1 - kr (merge_frame_of f hrec)) *\<^sub>R c2) R3 g2"
proof -
  let ?p = "ptr (status_stack R) (i, j)"
  let ?q = "ptr (result_stack R) (i, j)"
  let ?mf = "merge_frame_of f hrec"
  let ?ph = "(99 / 100) *\<^sub>R background_color R"
  from top_range [OF top] have p0: "0 \<le> ?p" "?p < Stack.max_depth (status_stack R)"
    by simp_all
  have b1: "ray_color_body R i j g = Some (Continue R1 g1)"
    unfolding R1 using top ty d h ih m u by (rule mirror_round)
  have s1: "stack (status_stack R1) (i, j, ?p) = ?mf"
    "ptr (status_stack R1) (i, j) = ?p + 1"
    "Stack.max_depth (status_stack R1) = Stack.max_depth (status_stack R)"
    "\<And>k. k < ?p \<Longrightarrow> stack (status_stack R1) (i, j, k) = stack (status_stack R) (i, j, k)"
    using p0 sroom by (simp_all add: R1 stack_push_def stack_pop_def)
  have r1: "stack_top (result_stack R1) i j = Inr ?ph"
    "ptr (result_stack R1) (i, j) = ?q + 1"
    "Stack.max_depth (result_stack R1) = Stack.max_depth (result_stack R)"
    "\<And>k. k \<le> ?q \<Longrightarrow> stack (result_stack R1) (i, j, k) = stack (result_stack R) (i, j, k)"
    using q by (simp_all add: R1 stack_push_def stack_top_def)
  have pd: "?p < Stack.max_depth (status_stack R1)"
    using p0 s1 by simp
  from merge_after_child [OF s1(1) s1(2) p0(1) pd r1(1) child]
  have t2: "stack_top (status_stack R2) i j = Inr ?mf"
    "stack_top (result_stack R2) i j = Inr c2"
    "stack_top (snd (stack_pop (result_stack R2) i j)) i j = Inr ?ph"
    by simp_all
  have b2: "ray_color_body R2 i j g2 = Some (Continue R3 g2)"
    unfolding R3 using t2(1) merge_frame_type t2(2) t2(3) by (rule merge_round)
  from child obtain n where n: "ray_color_rounds n R1 i j g1 = Some (Continue R2 g2)"
    by (auto simp: completes_def)
  have "ray_color_rounds (Suc n) R i j g = Some (Continue R2 g2)"
    using top_not_empty [OF top] b1 n by (rule rounds_first)
  then have rounds: "ray_color_rounds (Suc n + 1) R i j g = Some (Continue R3 g2)"
    using top_not_empty [OF t2(1)] b2 by (rule rounds_last)
  from child s1 r1 have c:
    "Stack.max_depth (status_stack R2) = Stack.max_depth (status_stack R)"
    "Stack.max_depth (result_stack R2) = Stack.max_depth (result_stack R)"
    "ptr (status_stack R2) (i, j) = ?p"
    "\<And>k. k < ?p \<Longrightarrow> stack (status_stack R2) (i, j, k) = stack (status_stack R) (i, j, k)"
    "ptr (result_stack R2) (i, j) = ?q + 2"
    "\<And>k. k \<le> ?q \<Longrightarrow> stack (result_stack R2) (i, j, k) = stack (result_stack R) (i, j, k)"
    by (simp_all add: completes_def)
  from top_range [OF t2(2)] c have qd: "?q + 2 < Stack.max_depth (result_stack R)"
    by simp
  from rounds have ex: "\<exists>n. ray_color_rounds n R i j g = Some (Continue R3 g2)"
    by blast
  have l3: "Stack.max_depth (status_stack R3) = Stack.max_depth (status_stack R)"
    "Stack.max_depth (result_stack R3) = Stack.max_depth (result_stack R)"
    "ptr (status_stack R3) (i, j) = ?p - 1"
    "\<forall>k. k < ?p \<longrightarrow> stack (status_stack R3) (i, j, k) = stack (status_stack R) (i, j, k)"
    "ptr (result_stack R3) (i, j) = ?q + 1"
    "stack_top (result_stack R3) i j = Inr (kr ?mf *\<^sub>R ?ph + (1 - kr ?mf) *\<^sub>R c2)"
    "\<forall>k. k \<le> ?q \<longrightarrow> stack (result_stack R3) (i, j, k) = stack (result_stack R) (i, j, k)"
    using c p0 q qd
    by (simp_all add: R3 stack_pop_def stack_push_def stack_top_def)
  from ex l3 show ?thesis
    unfolding completes_def by blast
qed


lemma glass_completes:
  assumes top: "stack_top (status_stack R) i j = Inr f"
    and ty: "task_type f = TASK_PROCESS"
    and d: "depth f < Renderer.max_depth R"
    and h: "hrec = hit (world R) (ray f) None"
    and ih: "is_hit hrec"
    and m: "m_type (mat hrec) = REFLECTION_AND_REFRACTION"
    and u: "random_unit_vector g = Some (u, g1)"
    and sroom: "ptr (status_stack R) (i, j) + 2 < Stack.max_depth (status_stack R)"
    and R1: "R1 = R\<lparr>status_stack :=
            snd (stack_push
                  (snd (stack_push
                          (snd (stack_push (snd (stack_pop (status_stack R) i j)) i j
                                  (merge_frame_of f hrec)))
                          i j (reflect_frame_of R f hrec u)))
                  i j (refract_frame_of f hrec))\<rparr>"
    and child1: "completes i j R1 g1 c1 R2 g2"
    and child2: "completes i j R2 g2 c2 R3 g3"
    and R4: "R4 = R3\<lparr>status_stack := snd (stack_pop (status_stack R3) i j),
          result_stack :=
            snd (stack_push (snd (stack_pop (snd (stack_pop (result_stack R3) i j)) i j)) i j
                   (kr (merge_frame_of f hrec) *\<^sub>R c1
                      + (1 - kr (merge_frame_of f hrec)) *\<^sub>R c2))\<rparr>"
  shows "completes i j R g
           (kr (merge_frame_of f hrec) *\<^sub>R c1 + (1 - kr (merge_frame_of f hrec)) *\<^sub>R c2) R4 g3"
proof -
  let ?p = "ptr (status_stack R) (i, j)"
  let ?q = "ptr (result_stack R) (i, j)"
  let ?mf = "merge_frame_of f hrec"
  from top_range [OF top] have p0: "0 \<le> ?p" "?p < Stack.max_depth (status_stack R)"
    by simp_all
  have b1: "ray_color_body R i j g = Some (Continue R1 g1)"
    unfolding R1 using top ty d h ih m u by (rule glass_round)
  have s1: "stack (status_stack R1) (i, j, ?p) = ?mf"
    "ptr (status_stack R1) (i, j) = ?p + 2"
    "Stack.max_depth (status_stack R1) = Stack.max_depth (status_stack R)"
    "\<And>k. k < ?p \<Longrightarrow> stack (status_stack R1) (i, j, k) = stack (status_stack R) (i, j, k)"
    using p0 sroom by (simp_all add: R1 stack_push_def stack_pop_def)
  have r1: "result_stack R1 = result_stack R"
    by (simp add: R1)
  have pd: "?p < Stack.max_depth (status_stack R1)"
    using p0 s1 by simp
  from merge_after_children [OF s1(1) s1(2) p0(1) pd child1 child2]
  have t3: "stack_top (status_stack R3) i j = Inr ?mf"
    "stack_top (result_stack R3) i j = Inr c2"
    "stack_top (snd (stack_pop (result_stack R3) i j)) i j = Inr c1"
    by simp_all
  have b3: "ray_color_body R3 i j g3 = Some (Continue R4 g3)"
    unfolding R4 using t3(1) merge_frame_type t3(2) t3(3) by (rule merge_round)
  from child1 obtain n1 where n1: "ray_color_rounds n1 R1 i j g1 = Some (Continue R2 g2)"
    by (auto simp: completes_def)
  from child2 obtain n2 where n2: "ray_color_rounds n2 R2 i j g2 = Some (Continue R3 g3)"
    by (auto simp: completes_def)
  from rounds_append [OF n1 n2]
  have "ray_color_rounds (Suc (n1 + n2)) R i j g = Some (Continue R3 g3)"
    using top_not_empty [OF top] b1 by (intro rounds_first)
  then have "ray_color_rounds (Suc (n1 + n2) + 1) R i j g = Some (Continue R4 g3)"
    using top_not_empty [OF t3(1)] b3 by (rule rounds_last)
  then have ex: "\<exists>n. ray_color_rounds n R i j g = Some (Continue R4 g3)"
    by blast
  from child1 s1 r1 have c2:
    "Stack.max_depth (status_stack R2) = Stack.max_depth (status_stack R)"
    "Stack.max_depth (result_stack R2) = Stack.max_depth (result_stack R)"
    "ptr (status_stack R2) (i, j) = ?p + 1"
    "\<And>k. k < ?p \<Longrightarrow> stack (status_stack R2) (i, j, k) = stack (status_stack R) (i, j, k)"
    "ptr (result_stack R2) (i, j) = ?q + 1"
    "\<And>k. k \<le> ?q \<Longrightarrow> stack (result_stack R2) (i, j, k) = stack (result_stack R) (i, j, k)"
    by (simp_all add: completes_def)
  from child1 have t2: "stack_top (result_stack R2) i j = Inr c1"
    by (simp add: completes_def)
  from top_range [OF t2] c2 have q0: "- 1 \<le> ?q"
    by simp
  from child2 c2 have c3:
    "Stack.max_depth (status_stack R3) = Stack.max_depth (status_stack R)"
    "Stack.max_depth (result_stack R3) = Stack.max_depth (result_stack R)"
    "ptr (status_stack R3) (i, j) = ?p"
    "\<And>k. k < ?p \<Longrightarrow> stack (status_stack R3) (i, j, k) = stack (status_stack R) (i, j, k)"
    "ptr (result_stack R3) (i, j) = ?q + 2"
    "\<And>k. k \<le> ?q \<Longrightarrow> stack (result_stack R3) (i, j, k) = stack (result_stack R) (i, j, k)"
    by (simp_all add: completes_def)
  from top_range [OF t3(2)] c3 have qd: "?q + 2 < Stack.max_depth (result_stack R)"
    by simp
  have l4: "Stack.max_depth (status_stack R4) = Stack.max_depth (status_stack R)"
    "Stack.max_depth (result_stack R4) = Stack.max_depth (result_stack R)"
    "ptr (status_stack R4) (i, j) = ?p - 1"
    "\<forall>k. k < ?p \<longrightarrow> stack (status_stack R4) (i, j, k) = stack (status_stack R) (i, j, k)"
    "ptr (result_stack R4) (i, j) = ?q + 1"
    "stack_top (result_stack R4) i j = Inr (kr ?mf *\<^sub>R c1 + (1 - kr ?mf) *\<^sub>R c2)"
    "\<forall>k. k \<le> ?q \<longrightarrow> stack (result_stack R4) (i, j, k) = stack (result_stack R) (i, j, k)"
    using c3 p0 q0 qd
    by (simp_all add: R4 stack_pop_def stack_push_def stack_top_def)
  from ex l4 show ?thesis
    unfolding completes_def by blast
qed


lemma same_config_stacks: "same_config R0 R \<Longrightarrow> same_config R0 (R\<lparr>status_stack := s, result_stack := q\<rparr>)"
  by (simp add: same_config_def)

lemma same_config_status': "same_config R0 R \<Longrightarrow> same_config R0 (R\<lparr>status_stack := s\<rparr>)"
  by (simp add: same_config_def)

lemma reflect_frame_of_config:
  "same_config R0 R \<Longrightarrow> reflect_frame_of R f hrec u = reflect_frame_of R0 f hrec u"
  by (simp add: reflect_frame_of_def same_config_def)

text \<open>
  Every \<open>PROCESS\<close> frame that has a colour in the recursion is worked off by the loop
  with that colour, from any state that has the frame on top of its task stack and
  room for it.
\<close>

theorem frame_completes:
  assumes tr: "traces R0 f g c g'"
  shows "\<forall>R. same_config R0 R \<and> task_type f = TASK_PROCESS
            \<and> stack_top (status_stack R) i j = Inr f \<and> room i j R0 R f
         \<longrightarrow> (\<exists>R'. completes i j R g c R' g' \<and> same_config R0 R')"
  using tr
proof (induction rule: traces.induct)
  case (at_bound f g)
  show ?case
  proof (intro allI impI, elim conjE)
    fix R
    assume sc: "same_config R0 R" and ty: "task_type f = TASK_PROCESS"
      and top: "stack_top (status_stack R) i j = Inr f" and rm: "room i j R0 R f"
    from sc at_bound have d: "Renderer.max_depth R \<le> depth f"
      by (simp add: same_config_def)
    from rm at_bound have q: "- 1 \<le> ptr (result_stack R) (i, j)"
      "ptr (result_stack R) (i, j) + 1 < Stack.max_depth (result_stack R)"
      by (simp_all add: room_def)
    from bound_completes [OF top ty d q] same_config_stacks [OF sc]
    show "\<exists>R'. completes i j R g (vec3 0 0 0) R' g \<and> same_config R0 R'"
      by blast
  qed
next
  case (shaded f hrec g)
  show ?case
  proof (intro allI impI, elim conjE)
    fix R
    assume sc: "same_config R0 R" and ty: "task_type f = TASK_PROCESS"
      and top: "stack_top (status_stack R) i j = Inr f" and rm: "room i j R0 R f"
    from sc shaded have d: "depth f < Renderer.max_depth R"
      and h: "hrec = hit (world R) (ray f) None"
      by (simp_all add: same_config_def)
    from rm shaded have q: "- 1 \<le> ptr (result_stack R) (i, j)"
      "ptr (result_stack R) (i, j) + 1 < Stack.max_depth (result_stack R)"
      by (simp_all add: room_def)
    from diffuse_completes [OF top ty d h shaded(3) shaded(4) q] same_config_stacks [OF sc]
    show "\<exists>R'. completes i j R g (bling_phong R0 (ray f) hrec) R' g \<and> same_config R0 R'"
      unfolding bling_phong_config [OF sc] by blast
  qed
next
  case (mirror f hrec g u g1 c2 g2)
  let ?mf = "merge_frame_of f hrec"
  let ?rf = "reflect_frame_of R0 f hrec u"
  show ?case
  proof (intro allI impI, elim conjE)
    fix R
    assume sc: "same_config R0 R" and ty: "task_type f = TASK_PROCESS"
      and top: "stack_top (status_stack R) i j = Inr f" and rm: "room i j R0 R f"
    let ?p = "ptr (status_stack R) (i, j)"
    let ?q = "ptr (result_stack R) (i, j)"
    from sc mirror have d: "depth f < Renderer.max_depth R"
      and h: "hrec = hit (world R) (ray f) None"
      by (simp_all add: same_config_def)
    from sc have bg: "background_color R = background_color R0"
      by (simp add: same_config_def)
    have rf: "reflect_frame_of R f hrec u = ?rf"
      using sc by (rule reflect_frame_of_config)
    from top_range [OF top] have p0: "0 \<le> ?p"
      by simp
    from rm mirror(1) have sroom: "?p + 1 < Stack.max_depth (status_stack R)"
      and q: "- 1 \<le> ?q" "?q + 1 < Stack.max_depth (result_stack R)"
      by (simp_all add: room_def)
    define R1 where "R1 = R\<lparr>status_stack :=
            snd (stack_push
                  (snd (stack_push (snd (stack_pop (status_stack R) i j)) i j ?mf))
                  i j (reflect_frame_of R f hrec u)),
          result_stack :=
            snd (stack_push (result_stack R) i j ((99 / 100) *\<^sub>R background_color R))\<rparr>"
    have sc1: "same_config R0 R1"
      unfolding R1_def using sc by (rule same_config_stacks)
    have top1: "stack_top (status_stack R1) i j = Inr ?rf"
      using p0 sroom by (simp add: R1_def rf stack_push_def stack_pop_def stack_top_def)
    have rm1: "room i j R0 R1 ?rf"
      using rm mirror(1) p0 q
      by (simp add: room_def R1_def child_frame_fields stack_push_def stack_pop_def)
    from mirror.IH sc1 top1 rm1 child_frame_fields(1)
    obtain R2 where c: "completes i j R1 g1 c2 R2 g2" and sc2: "same_config R0 R2"
      by blast
    from mirror_completes [OF top ty d h mirror(3) mirror(4) mirror(5) sroom q R1_def c refl]
      same_config_stacks [OF sc2]
    show "\<exists>R'. completes i j R g
             (kr ?mf *\<^sub>R ((99 / 100) *\<^sub>R background_color R0) + (1 - kr ?mf) *\<^sub>R c2) R' g2
           \<and> same_config R0 R'"
      unfolding bg by blast
  qed
next
  case (glass f hrec g u g1 c1 g2 c2 g3)
  let ?mf = "merge_frame_of f hrec"
  let ?rf = "reflect_frame_of R0 f hrec u"
  let ?tf = "refract_frame_of f hrec"
  show ?case
  proof (intro allI impI, elim conjE)
    fix R
    assume sc: "same_config R0 R" and ty: "task_type f = TASK_PROCESS"
      and top: "stack_top (status_stack R) i j = Inr f" and rm: "room i j R0 R f"
    let ?p = "ptr (status_stack R) (i, j)"
    let ?q = "ptr (result_stack R) (i, j)"
    from sc glass have d: "depth f < Renderer.max_depth R"
      and h: "hrec = hit (world R) (ray f) None"
      by (simp_all add: same_config_def)
    have rf: "reflect_frame_of R f hrec u = ?rf"
      using sc by (rule reflect_frame_of_config)
    from top_range [OF top] have p0: "0 \<le> ?p"
      by simp
    from rm glass(1) have sroom: "?p + 2 < Stack.max_depth (status_stack R)"
      by (simp add: room_def)
    define R1 where "R1 = R\<lparr>status_stack :=
            snd (stack_push
                  (snd (stack_push
                          (snd (stack_push (snd (stack_pop (status_stack R) i j)) i j ?mf))
                          i j (reflect_frame_of R f hrec u)))
                  i j ?tf)\<rparr>"
    have sc1: "same_config R0 R1"
      unfolding R1_def using sc by (rule same_config_status')
    have top1: "stack_top (status_stack R1) i j = Inr ?tf"
      using p0 sroom by (simp add: R1_def stack_push_def stack_pop_def stack_top_def)
    have s1: "stack (status_stack R1) (i, j, ?p + 1) = ?rf"
      "ptr (status_stack R1) (i, j) = ?p + 2"
      "Stack.max_depth (status_stack R1) = Stack.max_depth (status_stack R)"
      "result_stack R1 = result_stack R"
      using p0 sroom by (simp_all add: R1_def rf stack_push_def stack_pop_def)
    have rm1: "room i j R0 R1 ?tf"
      using rm glass(1) p0 s1
      by (simp add: room_def child_frame_fields)
    from glass.IH(1) sc1 top1 rm1 child_frame_fields(3)
    obtain R2 where c1: "completes i j R1 g1 c1 R2 g2" and sc2: "same_config R0 R2"
      by blast
    from c1 s1 have s2: "ptr (status_stack R2) (i, j) = ?p + 1"
      "Stack.max_depth (status_stack R2) = Stack.max_depth (status_stack R)"
      "stack (status_stack R2) (i, j, ?p + 1) = ?rf"
      "ptr (result_stack R2) (i, j) = ?q + 1"
      "Stack.max_depth (result_stack R2) = Stack.max_depth (result_stack R)"
      by (simp_all add: completes_def)
    have top2: "stack_top (status_stack R2) i j = Inr ?rf"
      using s2 p0 sroom by (simp add: stack_top_def)
    have rm2: "room i j R0 R2 ?rf"
      using rm glass(1) p0 s2
      by (simp add: room_def child_frame_fields)
    from glass.IH(2) sc2 top2 rm2 child_frame_fields(1)
    obtain R3 where c2: "completes i j R2 g2 c2 R3 g3" and sc3: "same_config R0 R3"
      by blast
    from glass_completes [OF top ty d h glass(3) glass(4) glass(5) sroom R1_def c1 c2 refl]
      same_config_stacks [OF sc3]
    show "\<exists>R'. completes i j R g (kr ?mf *\<^sub>R c1 + (1 - kr ?mf) *\<^sub>R c2) R' g3
           \<and> same_config R0 R'"
      by blast
  qed
qed


text \<open>
  With a task stack of more than \<open>2 * max_depth\<close> slots and a result stack of more
  than \<open>max_depth\<close> slots, \<open>ray_color\<close> returns the colour of the recursion for the
  primary ray, whenever the recursion has one.
\<close>

theorem ray_color_is_trace:
  assumes tr: "traces R (primary_frame r) g c g'"
    and cap: "2 * max 0 (Renderer.max_depth R) < Stack.max_depth (status_stack R)"
      "max 0 (Renderer.max_depth R) < Stack.max_depth (result_stack R)"
  shows "\<exists>R'. ray_color R i j r g = Some (Inr (c, R', g'))"
proof -
  let ?S = "ray_color_start R i j r"
  let ?f = "primary_frame r"
  from cap have pos: "0 < Stack.max_depth (status_stack R)"
    by simp
  have sc: "same_config R ?S"
    by (rule start_same_config)
  have top: "stack_top (status_stack ?S) i j = Inr ?f"
    using pos by (rule start_status)
  have rm: "room i j R ?S ?f"
    using cap pos by (simp add: room_def start_status start_result primary_frame_fields)
  from frame_completes [OF tr, of i j] sc top rm primary_frame_fields(1)
  obtain R1 where c: "completes i j ?S g c R1 g'"
    by blast
  then obtain n where n: "ray_color_rounds n ?S i j g = Some (Continue R1 g')"
    by (auto simp: completes_def)
  from c pos have e: "stack_empty (status_stack R1) i j"
    by (simp add: completes_def start_status stack_empty_def)
  from c have t: "stack_top (result_stack R1) i j = Inr c"
    by (simp add: completes_def)
  have "ray_color_loop ?S i j g = ray_color_loop R1 i j g'"
    using n by (rule rounds_loop)
  also have "\<dots> = Some (Inr (R1, g'))"
    by (subst ray_color_loop.simps) (simp add: e)
  finally have l: "ray_color_loop ?S i j g = Some (Inr (R1, g'))" .
  have f: "ray_color_finish R1 i j
             = Inr (c, R1\<lparr>result_stack := snd (stack_pop (result_stack R1) i j)\<rparr>)"
    using t top_not_empty [OF t] by (simp add: ray_color_finish_def)
  show ?thesis
    unfolding ray_color_def l by (simp add: f)
qed

end
